theory Spec2Isabelle
  imports Main "HOL-Library.Word" "HOL-Library.Sublist"
begin

section \<open>JavaScript values used by the failure-triage script\<close>

text \<open>
  The script under verification is the CI-failure analysis commenter
  (\<^verbatim>\<open>src/unnamed/part_002\<close>, one \<^verbatim>\<open>async function main()\<close>).
  A JavaScript string is a sequence of 16-bit code units; an ASCII literal of the
  source is written \<open>lit ''...''\<close>.  An environment variable is a string or
  \<^verbatim>\<open>undefined\<close>, a field of a job record is a string or \<^verbatim>\<open>null\<close>: both are
  \<open>jsstring option\<close>, and they differ only in how a template literal prints \<open>None\<close>.
\<close>

type_synonym code_unit = "16 word"
type_synonym jsstring = "code_unit list"

definition lit :: "string \<Rightarrow> jsstring" where
  "lit s = map (\<lambda>c. of_nat (of_char c)) s"

definition nl :: code_unit where
  "nl = 10"

definition slash :: code_unit where
  "slash = 47"

text \<open>Truthiness of a string-or-undefined value: \<^verbatim>\<open>!x\<close> holds for \<^verbatim>\<open>undefined\<close> and for \<^verbatim>\<open>''\<close>.\<close>

definition truthy :: "jsstring option \<Rightarrow> bool" where
  "truthy v = (case v of None \<Rightarrow> False | Some s \<Rightarrow> s \<noteq> [])"

text \<open>Template interpolation \<^verbatim>\<open>${x}\<close> of a string, of \<^verbatim>\<open>undefined\<close> and of \<^verbatim>\<open>null\<close>.\<close>

definition str_undef :: "jsstring option \<Rightarrow> jsstring" where
  "str_undef v = (case v of None \<Rightarrow> lit ''undefined'' | Some s \<Rightarrow> s)"

definition str_null :: "jsstring option \<Rightarrow> jsstring" where
  "str_null v = (case v of None \<Rightarrow> lit ''null'' | Some s \<Rightarrow> s)"

text \<open>\<^verbatim>\<open>s.includes(sub)\<close>: \<open>sub\<close> occurs in \<open>s\<close> as a contiguous run of code units.\<close>

primrec js_includes :: "jsstring \<Rightarrow> jsstring \<Rightarrow> bool" where
  "js_includes [] sub = (sub = [])"
| "js_includes (c # cs) sub = (prefix sub (c # cs) \<or> js_includes cs sub)"

text \<open>
  \<^verbatim>\<open>s.split(sep)\<close> for a separator of one code unit (the script splits on
  \<^verbatim>\<open>'\n'\<close> and on \<^verbatim>\<open>'/'\<close>): a left-to-right scan, \<open>cur\<close> being the piece read so far.
  The empty string splits into one empty piece.
\<close>

primrec split_from :: "code_unit \<Rightarrow> jsstring \<Rightarrow> jsstring \<Rightarrow> jsstring list" where
  "split_from sep cur [] = [cur]"
| "split_from sep cur (c # cs) =
     (if c = sep then cur # split_from sep [] cs else split_from sep (cur @ [c]) cs)"

definition js_split :: "code_unit \<Rightarrow> jsstring \<Rightarrow> jsstring list" where
  "js_split sep s = split_from sep [] s"

text \<open>\<^verbatim>\<open>xs.join(sep)\<close>.\<close>

fun js_join :: "jsstring \<Rightarrow> jsstring list \<Rightarrow> jsstring" where
  "js_join sep [] = []"
| "js_join sep [x] = x"
| "js_join sep (x # y # ys) = x @ sep @ js_join sep (y # ys)"

text \<open>
  \<^verbatim>\<open>xs.slice(start)\<close>: a negative \<open>start\<close> counts from the end, and both directions
  are clamped to the array.
\<close>

definition js_slice :: "int \<Rightarrow> 'a list \<Rightarrow> 'a list" where
  "js_slice start xs =
     (let n = int (length xs);
          k = (if start < 0 then max (n + start) 0 else min start n)
      in drop (nat k) xs)"

text \<open>
  \<^verbatim>\<open>s.trim()\<close> removes the WhiteSpace and LineTerminator code points of ECMAScript from
  both ends; all of them are single code units.
\<close>

definition is_whitespace :: "code_unit \<Rightarrow> bool" where
  "is_whitespace c = (c \<in> set [0x09, 0x0A, 0x0B, 0x0C, 0x0D, 0x20, 0xA0, 0x1680,
     0x2000, 0x2001, 0x2002, 0x2003, 0x2004, 0x2005, 0x2006, 0x2007, 0x2008, 0x2009, 0x200A,
     0x2028, 0x2029, 0x202F, 0x205F, 0x3000, 0xFEFF])"

definition js_trim :: "jsstring \<Rightarrow> jsstring" where
  "js_trim s = rev (dropWhile is_whitespace (rev (dropWhile is_whitespace s)))"

section \<open>Log Extractor: salient lines\<close>

text \<open>
  Lines 82 to 88 of the script:
  \<^verbatim>\<open>logText.split('\n').filter(line => line.includes('Error') || line.includes('FAILED') ||
     line.includes('error:') || line.includes('ERROR') || line.includes('FAILURE')).slice(-10)\<close>
\<close>

definition salient :: "jsstring \<Rightarrow> bool" where
  "salient line =
     (js_includes line (lit ''Error'') \<or>
      js_includes line (lit ''FAILED'') \<or>
      js_includes line (lit ''error:'') \<or>
      js_includes line (lit ''ERROR'') \<or>
      js_includes line (lit ''FAILURE''))"

definition errorLines :: "jsstring \<Rightarrow> jsstring list" where
  "errorLines logText = js_slice (- 10) (filter salient (js_split nl logText))"

text \<open>
  The specification's wording of the same selection: a fixed set of five literal
  patterns, a line being salient when one of them occurs in it.
\<close>

definition spec_patterns :: "jsstring list" where
  "spec_patterns = [lit ''Error'', lit ''FAILED'', lit ''error:'', lit ''ERROR'', lit ''FAILURE'']"

definition spec_salient :: "jsstring \<Rightarrow> bool" where
  "spec_salient line = (\<exists>p \<in> set spec_patterns. \<exists>before after. line = before @ p @ after)"

section \<open>Numbers printed and parsed\<close>

text \<open>The decimal digits a template literal prints for a non-negative integer.\<close>

fun decimal :: "nat \<Rightarrow> jsstring" where
  "decimal n = (if n < 10 then [of_nat (48 + n)] else decimal (n div 10) @ [of_nat (48 + n mod 10)])"

text \<open>
  \<^verbatim>\<open>parseInt(s)\<close> with no radix: leading white space is skipped, a sign is read, a
  prefix \<^verbatim>\<open>0x\<close> or \<^verbatim>\<open>0X\<close> selects radix 16, and the longest run of digits is the number;
  no digit at all gives \<^verbatim>\<open>NaN\<close>.  The result is a double: it is the integer read
  when that is at most \<open>2^53\<close> in magnitude, and \<open>Rounded n\<close> stands for the double
  nearest to a larger \<open>n\<close>, which is not computed here.  The sign of a zero is not
  kept.
\<close>

datatype jsnumber = NaN | Num int | Rounded int

definition digit_value :: "code_unit \<Rightarrow> nat option" where
  "digit_value c =
     (let k = unat c in
      if 48 \<le> k \<and> k \<le> 57 then Some (k - 48)
      else if 97 \<le> k \<and> k \<le> 122 then Some (k - 87)
      else if 65 \<le> k \<and> k \<le> 90 then Some (k - 55)
      else None)"

definition is_digit :: "nat \<Rightarrow> code_unit \<Rightarrow> bool" where
  "is_digit radix c = (case digit_value c of None \<Rightarrow> False | Some d \<Rightarrow> d < radix)"

definition digits_value :: "nat \<Rightarrow> jsstring \<Rightarrow> nat" where
  "digits_value radix ds =
     foldl (\<lambda>acc c. acc * radix + (case digit_value c of None \<Rightarrow> 0 | Some d \<Rightarrow> d)) 0 ds"

definition parseInt :: "jsstring \<Rightarrow> jsnumber" where
  "parseInt inputString =
     (let s = dropWhile is_whitespace inputString;
          negative = (case s of [] \<Rightarrow> False | c # _ \<Rightarrow> c = 45);
          s = (case s of [] \<Rightarrow> [] | c # cs \<Rightarrow> if c = 43 \<or> c = 45 then cs else s);
          hex = (prefix (lit ''0x'') s \<or> prefix (lit ''0X'') s);
          radix = (if hex then 16 else 10);
          s = (if hex then drop 2 s else s);
          ds = takeWhile (is_digit radix) s;
          n = (if negative then - int (digits_value radix ds) else int (digits_value radix ds))
      in if ds = [] then NaN
         else if \<bar>n\<bar> \<le> 2 ^ 53 then Num n
         else Rounded n)"

section \<open>The parsed inference response\<close>

text \<open>
  \<^verbatim>\<open>JSON.parse\<close> gives a JSON value; the script reads
  \<^verbatim>\<open>responseBody.content[0].text.trim()\<close> from it.  A JavaScript value that may be
  \<^verbatim>\<open>undefined\<close> is a \<open>json option\<close>.  The members of an object are an association
  list read by \<open>map_of\<close>.  The script never looks at a number, so a number keeps only
  its text.
\<close>

datatype json =
    JNull
  | JBool bool
  | JNumber jsstring
  | JString jsstring
  | JArray "json list"
  | JObject "(jsstring \<times> json) list"

datatype js_error = TypeError | SyntaxError | ServiceError jsstring

text \<open>
  \<^verbatim>\<open>v.content\<close> and \<^verbatim>\<open>v.text\<close>: reading a property of \<^verbatim>\<open>undefined\<close> or \<^verbatim>\<open>null\<close>
  throws a TypeError; only an object can have a member of such a name.
\<close>

fun get_member :: "jsstring \<Rightarrow> json option \<Rightarrow> js_error + json option" where
  "get_member k None = Inl TypeError"
| "get_member k (Some JNull) = Inl TypeError"
| "get_member k (Some (JObject kvs)) = Inr (map_of kvs k)"
| "get_member k (Some _) = Inr None"

text \<open>
  \<^verbatim>\<open>v[0]\<close>: the first element of an array, the first code unit of a string, the
  member \<^verbatim>\<open>"0"\<close> of an object.
\<close>

fun get_index0 :: "json option \<Rightarrow> js_error + json option" where
  "get_index0 None = Inl TypeError"
| "get_index0 (Some JNull) = Inl TypeError"
| "get_index0 (Some (JArray xs)) = Inr (case xs of [] \<Rightarrow> None | x # _ \<Rightarrow> Some x)"
| "get_index0 (Some (JString s)) = Inr (case s of [] \<Rightarrow> None | c # _ \<Rightarrow> Some (JString [c]))"
| "get_index0 (Some (JObject kvs)) = Inr (map_of kvs (lit ''0''))"
| "get_index0 (Some _) = Inr None"

text \<open>\<^verbatim>\<open>v.trim()\<close>: only a string has the method; on anything else the call throws.\<close>

fun call_trim :: "json option \<Rightarrow> js_error + jsstring" where
  "call_trim (Some (JString s)) = Inr (js_trim s)"
| "call_trim _ = Inl TypeError"

definition response_text :: "json \<Rightarrow> js_error + jsstring" where
  "response_text responseBody =
     (case get_member (lit ''content'') (Some responseBody) of
        Inl e \<Rightarrow> Inl e
      | Inr content \<Rightarrow>
          (case get_index0 content of
             Inl e \<Rightarrow> Inl e
           | Inr first \<Rightarrow>
               (case get_member (lit ''text'') first of
                  Inl e \<Rightarrow> Inl e
                | Inr text \<Rightarrow> call_trim text)))"

section \<open>Environment, external services and effects\<close>

record env =
  WORKFLOW_RUN_ID :: "jsstring option"
  WORKFLOW_NAME :: "jsstring option"
  HEAD_SHA :: "jsstring option"
  PULL_REQUEST_NUMBER :: "jsstring option"
  GITHUB_TOKEN :: "jsstring option"
  GITHUB_REPOSITORY :: "jsstring option"
  AWS_ACCESS_KEY_ID :: "jsstring option"
  AWS_SECRET_ACCESS_KEY :: "jsstring option"
  AWS_SESSION_TOKEN :: "jsstring option"
  AWS_REGION :: "jsstring option"

record job =
  job_id :: int
  job_name :: jsstring
  conclusion :: "jsstring option"
  started_at :: "jsstring option"
  completed_at :: "jsstring option"

text \<open>
  The requests to the repository host, with the arguments the script passes:
  owner, repo and then the run identifier, the job identifier, the issue number and
  body, or the commit hash and body.
\<close>

datatype gh_request =
    GetWorkflowRun "jsstring option" "jsstring option" "jsstring option"
  | ListJobsForWorkflowRun "jsstring option" "jsstring option" "jsstring option"
  | DownloadJobLogsForWorkflowRun "jsstring option" "jsstring option" int
  | CreateComment "jsstring option" "jsstring option" jsnumber jsstring
  | CreateCommitComment "jsstring option" "jsstring option" "jsstring option" jsstring

record bedrock_client =
  region :: jsstring
  accessKeyId :: "jsstring option"
  secretAccessKey :: "jsstring option"
  sessionToken :: "jsstring option"

text \<open>The command sent to the inference service; \<open>messages\<close> pairs a role with a content.\<close>

record invoke_model =
  modelId :: jsstring
  anthropic_version :: jsstring
  max_tokens :: nat
  messages :: "(jsstring \<times> jsstring) list"
  contentType :: jsstring
  accept :: jsstring

text \<open>The decoded body of an inference response: text that is not JSON, or a JSON value.\<close>

datatype response_body = Malformed | Json json

text \<open>
  The external services answer each request either by throwing (\<open>Inl\<close>) or with
  data.  The first argument of a repository-host call is the token the client was
  built with.
\<close>

record world =
  getWorkflowRun :: "jsstring option \<Rightarrow> gh_request \<Rightarrow> js_error + json"
  listJobsForWorkflowRun :: "jsstring option \<Rightarrow> gh_request \<Rightarrow> js_error + job list"
  downloadJobLogsForWorkflowRun :: "jsstring option \<Rightarrow> gh_request \<Rightarrow> js_error + jsstring option"
  createComment :: "jsstring option \<Rightarrow> gh_request \<Rightarrow> js_error + unit"
  createCommitComment :: "jsstring option \<Rightarrow> gh_request \<Rightarrow> js_error + unit"
  send :: "bedrock_client \<Rightarrow> invoke_model \<Rightarrow> js_error + response_body"

text \<open>
  What a run does, in order: lines written to the console, and the requests issued.
  \<open>LogFetchFailure name e\<close> is line 95, the console line about job \<open>name\<close> followed
  by the message of \<open>e\<close>; \<open>LogFatal e\<close> is line 190, the console error line followed by
  \<open>e\<close>.
\<close>

datatype effect =
    Log jsstring
  | LogError jsstring
  | LogFetchFailure jsstring js_error
  | LogFatal js_error
  | GitHub "jsstring option" gh_request
  | Bedrock bedrock_client invoke_model

record outcome =
  exit_code :: nat
  effects :: "effect list"

section \<open>The pipeline\<close>

text \<open>
  The top-level handler (lines 189 to 192): any exception thrown inside \<^verbatim>\<open>main\<close> is
  written to the console and the process exits with status 1.
\<close>

definition fatal :: "js_error \<Rightarrow> effect list \<Rightarrow> outcome" where
  "fatal e tr = \<lparr>exit_code = 1, effects = tr @ [LogFatal e]\<rparr>"

text \<open>\<^verbatim>\<open>x || d\<close> for a string-or-undefined \<open>x\<close>.\<close>

definition or_default :: "jsstring option \<Rightarrow> jsstring \<Rightarrow> jsstring" where
  "or_default v d = (case v of None \<Rightarrow> d | Some s \<Rightarrow> if s = [] then d else s)"

text \<open>\<^verbatim>\<open>x ? 'Present' : 'Missing'\<close>.\<close>

definition present_or_missing :: "jsstring option \<Rightarrow> jsstring" where
  "present_or_missing v = (if truthy v then lit ''Present'' else lit ''Missing'')"

text \<open>The array destructuring \<^verbatim>\<open>const [owner, repo] = parts\<close>.\<close>

definition first_of :: "'a list \<Rightarrow> 'a option" where
  "first_of xs = (case xs of [] \<Rightarrow> None | x # _ \<Rightarrow> Some x)"

definition second_of :: "'a list \<Rightarrow> 'a option" where
  "second_of xs = (case xs of _ # y # _ \<Rightarrow> Some y | _ \<Rightarrow> None)"

text \<open>Prompt Builder (lines 120 to 137).\<close>

definition analysisPrompt ::
  "jsstring option \<Rightarrow> jsstring option \<Rightarrow> jsstring option \<Rightarrow> jsstring option \<Rightarrow> jsstring \<Rightarrow> jsstring" where
  "analysisPrompt workflowName workflowRunId owner repo failureDetails =
     lit ''You are a senior software engineer helping debug failed GitHub Actions. Analyze the following workflow failure and provide helpful insights.'' @ [nl] @
     [nl] @
     lit ''**Workflow Information:**'' @ [nl] @
     lit ''- Name: '' @ str_undef workflowName @ [nl] @
     lit ''- Run ID: '' @ str_undef workflowRunId @ [nl] @
     lit ''- Repository: '' @ str_undef owner @ [slash] @ str_undef repo @ [nl] @
     [nl] @
     lit ''**Failure Details:**'' @ [nl] @
     failureDetails @ [nl] @
     [nl] @
     lit ''**Instructions:**'' @ [nl] @
     lit ''1. Identify the root cause of the failure'' @ [nl] @
     lit ''2. Provide specific, actionable steps to fix the issue'' @ [nl] @
     lit ''3. Suggest preventive measures if applicable'' @ [nl] @
     lit ''4. Keep your response concise but helpful'' @ [nl] @
     lit ''5. Format your response in markdown for GitHub comments'' @ [nl] @
     [nl] @
     lit ''Please provide your analysis:''"

text \<open>
  The comment template (lines 162 to 167).  The robot emoji U+1F916 is the surrogate
  pair \<open>D83E DD16\<close>; code unit 34 is the double quote.
\<close>

definition comment_heading :: jsstring where
  "comment_heading = lit ''## '' @ [0xD83E, 0xDD16] @ lit '' Automated Failure Analysis''"

definition commentBody :: "jsstring \<Rightarrow> jsstring option \<Rightarrow> jsstring" where
  "commentBody analysis workflowName =
     comment_heading @ [nl] @
     [nl] @
     analysis @ [nl] @
     [nl] @
     lit ''---'' @ [nl] @
     lit ''*This analysis was generated automatically by Claude via AWS Bedrock when the '' @ [34] @
       str_undef workflowName @ [34] @ lit '' workflow failed.*''"

text \<open>
  One round of the loop over the failed jobs (lines 65 to 100), on the blob
  \<open>failureDetails\<close> and the effects so far.
\<close>

definition process_job ::
  "world \<Rightarrow> jsstring option \<Rightarrow> jsstring option \<Rightarrow> jsstring option \<Rightarrow> job \<Rightarrow>
   jsstring \<times> effect list \<Rightarrow> jsstring \<times> effect list" where
  "process_job w token owner repo job st =
     (let (failureDetails, tr) = st;
          request = DownloadJobLogsForWorkflowRun owner repo (job_id job);
          tr = tr @ [Log (lit ''Getting logs for job: '' @ job_name job), GitHub token request]
      in case downloadJobLogsForWorkflowRun w token request of
           Inr data \<Rightarrow>
             (let failureDetails = failureDetails @ [nl] @ lit ''## Job: '' @ job_name job @ [nl];
                  failureDetails = failureDetails @ lit ''Status: '' @ str_null (conclusion job) @ [nl];
                  failureDetails = failureDetails @ lit ''Started: '' @ str_null (started_at job) @ [nl];
                  failureDetails = failureDetails @ lit ''Completed: '' @ str_null (completed_at job) @ [nl]
              in case data of
                   None \<Rightarrow> (failureDetails, tr)
                 | Some logText \<Rightarrow>
                     if logText = [] then (failureDetails, tr)
                     else if length (errorLines logText) > 0
                       then (failureDetails @ [nl] @ lit ''Key error messages:'' @ [nl] @
                               js_join [nl] (errorLines logText) @ [nl], tr)
                       else (failureDetails, tr))
         | Inl logError \<Rightarrow>
             (let failureDetails = failureDetails @ [nl] @ lit ''## Job: '' @ job_name job @ [nl];
                  failureDetails = failureDetails @ lit ''Status: '' @ str_null (conclusion job) @ [nl];
                  failureDetails = failureDetails @ lit ''Error: Could not fetch detailed logs'' @ [nl]
              in (failureDetails, tr @ [LogFetchFailure (job_name job) logError])))"

primrec for_jobs ::
  "world \<Rightarrow> jsstring option \<Rightarrow> jsstring option \<Rightarrow> jsstring option \<Rightarrow> job list \<Rightarrow>
   jsstring \<times> effect list \<Rightarrow> jsstring \<times> effect list" where
  "for_jobs w token owner repo [] st = st"
| "for_jobs w token owner repo (job # jobs) st =
     for_jobs w token owner repo jobs (process_job w token owner repo job st)"

text \<open>Reporter (lines 159 to 187), entered with the trimmed diagnosis.\<close>

definition report ::
  "env \<Rightarrow> world \<Rightarrow> jsstring option \<Rightarrow> jsstring option \<Rightarrow> jsstring \<Rightarrow> effect list \<Rightarrow> outcome" where
  "report e w owner repo analysis tr =
     (let workflowName = WORKFLOW_NAME e;
          headSha = HEAD_SHA e;
          pullRequestNumber = PULL_REQUEST_NUMBER e;
          githubToken = GITHUB_TOKEN e;
          tr = tr @ [Log (lit ''Creating comment with analysis...'')];
          body = commentBody analysis workflowName
      in if truthy pullRequestNumber \<and> pullRequestNumber \<noteq> Some (lit ''null'') then
           (let request = CreateComment owner repo (parseInt (str_undef pullRequestNumber)) body;
                tr = tr @ [GitHub githubToken request]
            in case createComment w githubToken request of
                 Inl err \<Rightarrow> fatal err tr
               | Inr _ \<Rightarrow>
                   \<lparr>exit_code = 0,
                    effects = tr @ [Log (lit ''Created analysis comment on PR #'' @
                                          str_undef pullRequestNumber)]\<rparr>)
         else
           (let request = CreateCommitComment owner repo headSha body;
                tr = tr @ [GitHub githubToken request]
            in case createCommitComment w githubToken request of
                 Inl err \<Rightarrow> fatal err tr
               | Inr _ \<Rightarrow>
                   \<lparr>exit_code = 0,
                    effects = tr @ [Log (lit ''Created analysis comment on commit '' @
                                          str_undef headSha)]\<rparr>))"

text \<open>
  The inference client (lines 103 to 115): region and credentials from the
  environment, the session token only when one is set.
\<close>

definition bedrockClient :: "env \<Rightarrow> bedrock_client" where
  "bedrockClient e =
     \<lparr>region = or_default (AWS_REGION e) (lit ''us-east-1''),
      accessKeyId = AWS_ACCESS_KEY_ID e,
      secretAccessKey = AWS_SECRET_ACCESS_KEY e,
      sessionToken = (if truthy (AWS_SESSION_TOKEN e) then AWS_SESSION_TOKEN e else None)\<rparr>"

text \<open>
  The command (lines 140 to 152).  The request body is kept as the object given to
  \<^verbatim>\<open>JSON.stringify\<close>.
\<close>

definition InvokeModelCommand :: "jsstring \<Rightarrow> invoke_model" where
  "InvokeModelCommand prompt =
     \<lparr>modelId = lit ''anthropic.claude-3-sonnet-20240229-v1:0'',
      anthropic_version = lit ''bedrock-2023-05-31'',
      max_tokens = 2000,
      messages = [(lit ''user'', prompt)],
      contentType = lit ''application/json'',
      accept = lit ''application/json''\<rparr>"

text \<open>
  Prompt Builder call and Diagnosis Requester (lines 102 to 157), entered with the
  aggregated blob.
\<close>

definition diagnose ::
  "env \<Rightarrow> world \<Rightarrow> jsstring option \<Rightarrow> jsstring option \<Rightarrow> jsstring \<Rightarrow> effect list \<Rightarrow> outcome" where
  "diagnose e w owner repo failureDetails tr =
     (let client = bedrockClient e;
          tr = tr @ [Log (lit ''Analyzing failure with Claude via Bedrock...'')];
          prompt = analysisPrompt (WORKFLOW_NAME e) (WORKFLOW_RUN_ID e) owner repo failureDetails;
          command = InvokeModelCommand prompt;
          tr = tr @ [Bedrock client command]
      in case send w client command of
           Inl err \<Rightarrow> fatal err tr
         | Inr response \<Rightarrow>
             (let tr = tr @ [Log (lit ''Bedrock analysis successful'')]
              in case response of
                   Malformed \<Rightarrow> fatal SyntaxError tr
                 | Json responseBody \<Rightarrow>
                     (case response_text responseBody of
                        Inl err \<Rightarrow> fatal err tr
                      | Inr analysis \<Rightarrow> report e w owner repo analysis tr)))"

text \<open>The retained jobs (line 54).\<close>

definition failedJobs :: "job list \<Rightarrow> job list" where
  "failedJobs jobs = filter (\<lambda>job. conclusion job = Some (lit ''failure'')) jobs"

text \<open>The console lines of the environment check (lines 14 to 20).\<close>

definition environment_check :: "env \<Rightarrow> effect list" where
  "environment_check e =
     [Log (lit ''Environment check:''),
      Log (lit ''- AWS_ACCESS_KEY_ID: '' @ present_or_missing (AWS_ACCESS_KEY_ID e)),
      Log (lit ''- AWS_SECRET_ACCESS_KEY: '' @ present_or_missing (AWS_SECRET_ACCESS_KEY e)),
      Log (lit ''- AWS_REGION: '' @ or_default (AWS_REGION e) (lit ''us-east-1'')),
      Log (lit ''- Workflow Run ID: '' @ str_undef (WORKFLOW_RUN_ID e)),
      Log (lit ''- Workflow Name: '' @ str_undef (WORKFLOW_NAME e)),
      Log (lit ''- Pull Request Number: '' @ str_undef (PULL_REQUEST_NUMBER e))]"

text \<open>
  Run Locator (lines 8 to 51): the part of \<^verbatim>\<open>main\<close> up to the job list.  It ends
  the run (\<open>Inl\<close>) or hands owner, repo, the job list and the effects so far to the
  rest.  \<^verbatim>\<open>process.exit(1)\<close> ends the process at once; a plain \<^verbatim>\<open>return\<close> lets it
  end with status 0.  Calling \<^verbatim>\<open>split\<close> on an undefined \<^verbatim>\<open>GITHUB_REPOSITORY\<close>
  throws a TypeError.  The fetched run object \<open>workflowRun\<close> is bound and not used.
\<close>

definition locate ::
  "env \<Rightarrow> world \<Rightarrow> outcome + (jsstring option \<times> jsstring option \<times> job list \<times> effect list)" where
  "locate e w =
     (let workflowRunId = WORKFLOW_RUN_ID e;
          githubToken = GITHUB_TOKEN e;
          tr = environment_check e
      in if \<not> truthy (AWS_ACCESS_KEY_ID e) \<or> \<not> truthy (AWS_SECRET_ACCESS_KEY e) then
           Inl \<lparr>exit_code = 1,
                effects = tr @ [LogError (lit ''AWS credentials not found in environment variables'')]\<rparr>
         else if \<not> truthy workflowRunId then
           Inl \<lparr>exit_code = 0, effects = tr @ [Log (lit ''No workflow run ID found, skipping...'')]\<rparr>
         else
           (case GITHUB_REPOSITORY e of
              None \<Rightarrow> Inl (fatal TypeError tr)
            | Some repository \<Rightarrow>
                (let parts = js_split slash repository;
                     owner = first_of parts;
                     repo = second_of parts;
                     runRequest = GetWorkflowRun owner repo workflowRunId;
                     tr = tr @ [Log (lit ''Fetching workflow run details...''),
                                GitHub githubToken runRequest]
                 in case getWorkflowRun w githubToken runRequest of
                      Inl err \<Rightarrow> Inl (fatal err tr)
                    | Inr workflowRun \<Rightarrow>
                        (let jobsRequest = ListJobsForWorkflowRun owner repo workflowRunId;
                             tr = tr @ [GitHub githubToken jobsRequest]
                         in case listJobsForWorkflowRun w githubToken jobsRequest of
                              Inl err \<Rightarrow> Inl (fatal err tr)
                            | Inr jobs \<Rightarrow> Inr (owner, repo, jobs, tr)))))"

text \<open>\<^verbatim>\<open>main\<close> (lines 6 to 193).\<close>

definition main :: "env \<Rightarrow> world \<Rightarrow> outcome" where
  "main e w =
     (case locate e w of
        Inl ended \<Rightarrow> ended
      | Inr (owner, repo, jobs, tr) \<Rightarrow>
          if length (failedJobs jobs) = 0 then
            \<lparr>exit_code = 0, effects = tr @ [Log (lit ''No failed jobs found'')]\<rparr>
          else
            (let tr = tr @ [Log (lit ''Found '' @ decimal (length (failedJobs jobs)) @
                                lit '' failed job(s)'')];
                 (failureDetails, tr) =
                    for_jobs w (GITHUB_TOKEN e) owner repo (failedJobs jobs) ([], tr)
             in diagnose e w owner repo failureDetails tr))"

section \<open>Vocabulary for the statements\<close>

text \<open>The text one job adds to the blob: one round of the loop started on the empty blob.\<close>

definition job_section ::
  "world \<Rightarrow> jsstring option \<Rightarrow> jsstring option \<Rightarrow> jsstring option \<Rightarrow> job \<Rightarrow> jsstring" where
  "job_section w token owner repo job = fst (process_job w token owner repo job ([], []))"

text \<open>The two shapes of a section without a block of error lines.\<close>

definition header_section :: "job \<Rightarrow> jsstring" where
  "header_section job =
     [nl] @ lit ''## Job: '' @ job_name job @ [nl] @
     lit ''Status: '' @ str_null (conclusion job) @ [nl] @
     lit ''Started: '' @ str_null (started_at job) @ [nl] @
     lit ''Completed: '' @ str_null (completed_at job) @ [nl]"

definition degraded_section :: "job \<Rightarrow> jsstring" where
  "degraded_section job =
     [nl] @ lit ''## Job: '' @ job_name job @ [nl] @
     lit ''Status: '' @ str_null (conclusion job) @ [nl] @
     lit ''Error: Could not fetch detailed logs'' @ [nl]"

text \<open>Effects that are a comment-creation write, an inference call, any request at all.\<close>

fun is_comment :: "effect \<Rightarrow> bool" where
  "is_comment (GitHub _ (CreateComment _ _ _ _)) = True"
| "is_comment (GitHub _ (CreateCommitComment _ _ _ _)) = True"
| "is_comment _ = False"

fun is_inference :: "effect \<Rightarrow> bool" where
  "is_inference (Bedrock _ _) = True"
| "is_inference _ = False"

fun is_request :: "effect \<Rightarrow> bool" where
  "is_request (GitHub _ _) = True"
| "is_request (Bedrock _ _) = True"
| "is_request _ = False"

text \<open>
  The posting rule in the words of the specification: the comment goes to the review
  request of the supplied number when one was supplied (the input is neither absent
  nor empty) and is not the literal \<open>null\<close>, and to the triggering revision otherwise.
\<close>

definition posting_target ::
  "env \<Rightarrow> jsstring option \<Rightarrow> jsstring option \<Rightarrow> jsstring \<Rightarrow> gh_request" where
  "posting_target e owner repo body =
     (case PULL_REQUEST_NUMBER e of
        None \<Rightarrow> CreateCommitComment owner repo (HEAD_SHA e) body
      | Some number \<Rightarrow>
          if number = [] \<or> number = lit ''null''
          then CreateCommitComment owner repo (HEAD_SHA e) body
          else CreateComment owner repo (parseInt number) body)"

text \<open>The answer of the repository host to a posting request.\<close>

definition post :: "world \<Rightarrow> jsstring option \<Rightarrow> gh_request \<Rightarrow> js_error + unit" where
  "post w token request =
     (case request of
        CreateComment _ _ _ _ \<Rightarrow> createComment w token request
      | CreateCommitComment _ _ _ _ \<Rightarrow> createCommitComment w token request
      | _ \<Rightarrow> Inr ())"

text \<open>The inference request of a run on a blob, and the answer of the service to it.\<close>

definition inference_request ::
  "env \<Rightarrow> jsstring option \<Rightarrow> jsstring option \<Rightarrow> jsstring \<Rightarrow> effect" where
  "inference_request e owner repo failureDetails =
     Bedrock (bedrockClient e)
       (InvokeModelCommand
         (analysisPrompt (WORKFLOW_NAME e) (WORKFLOW_RUN_ID e) owner repo failureDetails))"

definition inference_answer ::
  "world \<Rightarrow> env \<Rightarrow> jsstring option \<Rightarrow> jsstring option \<Rightarrow> jsstring \<Rightarrow> js_error + response_body" where
  "inference_answer w e owner repo failureDetails =
     send w (bedrockClient e)
       (InvokeModelCommand
         (analysisPrompt (WORKFLOW_NAME e) (WORKFLOW_RUN_ID e) owner repo failureDetails))"

text \<open>The effects of one round of the loop, started on no effects.\<close>

definition job_effects ::
  "world \<Rightarrow> jsstring option \<Rightarrow> jsstring option \<Rightarrow> jsstring option \<Rightarrow> job \<Rightarrow> effect list" where
  "job_effects w token owner repo job = snd (process_job w token owner repo job ([], []))"

text \<open>A log of fourteen lines, twelve of them salient.\<close>

definition sample_log :: jsstring where
  "sample_log = js_join [nl]
     [lit ''ok'', lit ''ERROR0'', lit ''ERROR1'', lit ''ERROR2'', lit ''ERROR3'', lit ''ERROR4'',
      lit ''ERROR5'', lit ''ERROR6'', lit ''ERROR7'', lit ''ERROR8'', lit ''ERROR9'',
      lit ''error: a'', lit ''done'', lit ''FAILED b'']"

text \<open>A world in which every service throws, and an environment with nothing set.\<close>

definition unreachable_world :: world where
  "unreachable_world =
     \<lparr>getWorkflowRun = (\<lambda>_ _. Inl (ServiceError (lit ''offline''))),
      listJobsForWorkflowRun = (\<lambda>_ _. Inl (ServiceError (lit ''offline''))),
      downloadJobLogsForWorkflowRun = (\<lambda>_ _. Inl (ServiceError (lit ''offline''))),
      createComment = (\<lambda>_ _. Inl (ServiceError (lit ''offline''))),
      createCommitComment = (\<lambda>_ _. Inl (ServiceError (lit ''offline''))),
      send = (\<lambda>_ _. Inl (ServiceError (lit ''offline'')))\<rparr>"

definition empty_env :: env where
  "empty_env =
     \<lparr>WORKFLOW_RUN_ID = None, WORKFLOW_NAME = None, HEAD_SHA = None,
      PULL_REQUEST_NUMBER = None, GITHUB_TOKEN = None, GITHUB_REPOSITORY = None,
      AWS_ACCESS_KEY_ID = None, AWS_SECRET_ACCESS_KEY = None, AWS_SESSION_TOKEN = None,
      AWS_REGION = None\<rparr>"

section \<open>Sample inputs\<close>

text \<open>
  A run of four jobs: \<open>build\<close> failed and its log has one salient line, \<open>lint\<close>
  succeeded, \<open>test\<close> failed and its log cannot be fetched, \<open>docs\<close> failed and its log
  download has no data.
\<close>

definition build_job :: job where
  "build_job = \<lparr>job_id = 1, job_name = lit ''build'', conclusion = Some (lit ''failure''),
     started_at = Some (lit ''2024-05-01T10:00:00Z''), completed_at = Some (lit ''2024-05-01T10:02:00Z'')\<rparr>"

definition lint_job :: job where
  "lint_job = \<lparr>job_id = 2, job_name = lit ''lint'', conclusion = Some (lit ''success''),
     started_at = Some (lit ''2024-05-01T10:00:00Z''), completed_at = Some (lit ''2024-05-01T10:01:00Z'')\<rparr>"

definition test_job :: job where
  "test_job = \<lparr>job_id = 3, job_name = lit ''test'', conclusion = Some (lit ''failure''),
     started_at = Some (lit ''2024-05-01T10:00:00Z''), completed_at = Some (lit ''2024-05-01T10:03:00Z'')\<rparr>"

definition docs_job :: job where
  "docs_job = \<lparr>job_id = 4, job_name = lit ''docs'', conclusion = Some (lit ''failure''),
     started_at = Some (lit ''2024-05-01T10:00:00Z''), completed_at = None\<rparr>"

definition build_log :: jsstring where
  "build_log = js_join [nl] [lit ''npm ci'', lit ''Error: module not found'', lit ''exit 1'']"

definition sample_logs :: "gh_request \<Rightarrow> js_error + jsstring option" where
  "sample_logs request =
     (case request of
        DownloadJobLogsForWorkflowRun _ _ i \<Rightarrow>
          if i = 1 then Inr (Some build_log)
          else if i = 3 then Inl (ServiceError (lit ''Not Found''))
          else Inr None
      | _ \<Rightarrow> Inl TypeError)"

definition sample_response :: json where
  "sample_response =
     JObject [(lit ''content'',
       JArray [JObject [(lit ''type'', JString (lit ''text'')),
                        (lit ''text'', JString (lit '' Install the module. ''))]])]"

definition sample_world :: world where
  "sample_world =
     \<lparr>getWorkflowRun = (\<lambda>_ _. Inr JNull),
      listJobsForWorkflowRun = (\<lambda>_ _. Inr [build_job, lint_job, test_job, docs_job]),
      downloadJobLogsForWorkflowRun = (\<lambda>_. sample_logs),
      createComment = (\<lambda>_ _. Inr ()),
      createCommitComment = (\<lambda>_ _. Inr ()),
      send = (\<lambda>_ _. Inr (Json sample_response))\<rparr>"

text \<open>The sample world with an inference service whose answer is not JSON, or is \<open>null\<close>.\<close>

definition garbled_world :: world where
  "garbled_world = sample_world\<lparr>send := (\<lambda>_ _. Inr Malformed)\<rparr>"

definition null_world :: world where
  "null_world = sample_world\<lparr>send := (\<lambda>_ _. Inr (Json JNull))\<rparr>"

text \<open>A world in which only the fetch of the run answers.\<close>

definition jobless_world :: world where
  "jobless_world = unreachable_world\<lparr>getWorkflowRun := (\<lambda>_ _. Inr JNull)\<rparr>"

definition green_world :: world where
  "green_world = sample_world\<lparr>listJobsForWorkflowRun := (\<lambda>_ _. Inr [lint_job])\<rparr>"

definition sample_env :: env where
  "sample_env =
     \<lparr>WORKFLOW_RUN_ID = Some (lit ''555''), WORKFLOW_NAME = Some (lit ''CI''),
      HEAD_SHA = Some (lit ''0a1b2c3''), PULL_REQUEST_NUMBER = Some (lit ''42''),
      GITHUB_TOKEN = Some (lit ''token''), GITHUB_REPOSITORY = Some (lit ''octo/demo''),
      AWS_ACCESS_KEY_ID = Some (lit ''key''), AWS_SECRET_ACCESS_KEY = Some (lit ''secret''),
      AWS_SESSION_TOKEN = None, AWS_REGION = None\<rparr>"

text \<open>The sample environment without a repository.\<close>

definition no_repository_env :: env where
  "no_repository_env = sample_env\<lparr>GITHUB_REPOSITORY := None\<rparr>"

text \<open>The sample environment without a run identifier.\<close>

definition no_run_env :: env where
  "no_run_env = sample_env\<lparr>WORKFLOW_RUN_ID := None\<rparr>"

section \<open>Facts about the string operations\<close>

lemma js_includes_iff: "js_includes s sub \<longleftrightarrow> (\<exists>before after. s = before @ sub @ after)"
proof (induction s)
  case Nil
  then show ?case by auto
next
  case (Cons c cs)
  have "sublist sub (c # cs) \<longleftrightarrow> prefix sub (c # cs) \<or> sublist sub cs"
    by (rule sublist_Cons_right)
  with Cons show ?case
    by (simp add: sublist_def)
qed

lemma js_includes_appendI: "js_includes (before @ sub @ after) sub"
  by (auto simp: js_includes_iff)

lemma js_includes_mid: "js_includes sub x \<Longrightarrow> js_includes (before @ sub @ after) x"
proof -
  assume "js_includes sub x"
  then obtain a b where "sub = a @ x @ b"
    by (auto simp: js_includes_iff)
  then have "before @ sub @ after = (before @ a) @ x @ (b @ after)"
    by simp
  then show ?thesis
    unfolding js_includes_iff by blast
qed

lemma salient_iff_spec: "salient line \<longleftrightarrow> spec_salient line"
  by (simp add: salient_def spec_salient_def spec_patterns_def js_includes_iff)

lemma split_from_not_Nil: "split_from sep cur s \<noteq> []"
  by (induction s arbitrary: cur) auto

lemma join_split_from: "js_join [sep] (split_from sep cur s) = cur @ s"
proof (induction s arbitrary: cur)
  case Nil
  then show ?case by simp
next
  case (Cons c cs)
  obtain y ys where "split_from sep [] cs = y # ys"
    using split_from_not_Nil [of sep "[]" cs] by (cases "split_from sep [] cs") auto
  with Cons [of "[]"] Cons [of "cur @ [c]"] show ?case
    by auto
qed

lemma split_from_no_sep:
  "sep \<notin> set cur \<Longrightarrow> l \<in> set (split_from sep cur s) \<Longrightarrow> sep \<notin> set l"
proof (induction s arbitrary: cur)
  case Nil
  then show ?case by simp
next
  case (Cons c cs)
  show ?case
  proof (cases "c = sep")
    case True
    with Cons.prems have "l = cur \<or> l \<in> set (split_from sep [] cs)"
      by simp
    then show ?thesis
      using Cons.prems(1) Cons.IH [of "[]"] by auto
  next
    case False
    with Cons.prems have "l \<in> set (split_from sep (cur @ [c]) cs)"
      by simp
    moreover from False Cons.prems(1) have "sep \<notin> set (cur @ [c])"
      by auto
    ultimately show ?thesis
      by (rule Cons.IH [rotated])
  qed
qed

lemma js_slice_neg: "0 < n \<Longrightarrow> js_slice (- int n) xs = drop (length xs - n) xs"
  by (auto simp: js_slice_def Let_def max_def nat_diff_distrib'
      intro: arg_cong [where f = "\<lambda>k. drop k xs"])

section \<open>Facts about the pipeline\<close>

lemma process_job_eq:
  "process_job w token owner repo job (blob, tr) =
     (blob @ job_section w token owner repo job, tr @ job_effects w token owner repo job)"
  by (simp add: process_job_def job_section_def job_effects_def Let_def
      split: sum.splits option.splits)

lemma for_jobs_eq:
  "for_jobs w token owner repo jobs (blob, tr) =
     (blob @ concat (map (job_section w token owner repo) jobs),
      tr @ concat (map (job_effects w token owner repo) jobs))"
  by (induction jobs arbitrary: blob tr) (simp_all add: process_job_eq)

lemma job_effects_cases:
  "job_effects w token owner repo job =
     [Log (lit ''Getting logs for job: '' @ job_name job),
      GitHub token (DownloadJobLogsForWorkflowRun owner repo (job_id job))] @
     (case downloadJobLogsForWorkflowRun w token
             (DownloadJobLogsForWorkflowRun owner repo (job_id job)) of
        Inl err \<Rightarrow> [LogFetchFailure (job_name job) err]
      | Inr _ \<Rightarrow> [])"
  by (simp add: process_job_def job_effects_def Let_def split: sum.splits option.splits)

lemma job_section_cases:
  "job_section w token owner repo job =
     (case downloadJobLogsForWorkflowRun w token
             (DownloadJobLogsForWorkflowRun owner repo (job_id job)) of
        Inl err \<Rightarrow> degraded_section job
      | Inr data \<Rightarrow>
          header_section job @
          (case data of
             None \<Rightarrow> []
           | Some logText \<Rightarrow>
               if logText = [] \<or> errorLines logText = [] then []
               else [nl] @ lit ''Key error messages:'' @ [nl] @
                    js_join [nl] (errorLines logText) @ [nl]))"
  by (simp add: process_job_def job_section_def Let_def header_section_def degraded_section_def
      split: sum.splits option.splits)

lemma job_effects_quiet:
  "filter is_comment (job_effects w token owner repo job) = []"
  "filter is_inference (job_effects w token owner repo job) = []"
  by (simp_all add: job_effects_cases split: sum.splits)

lemma jobs_effects_quiet:
  "filter is_comment (concat (map (job_effects w token owner repo) jobs)) = []"
  "filter is_inference (concat (map (job_effects w token owner repo) jobs)) = []"
  by (induction jobs) (simp_all add: job_effects_quiet)

lemma locate_Inr:
  "locate e w = Inr (owner, repo, jobs, tr) \<Longrightarrow>
     truthy (AWS_ACCESS_KEY_ID e) \<and> truthy (AWS_SECRET_ACCESS_KEY e) \<and> truthy (WORKFLOW_RUN_ID e) \<and>
     (\<exists>repository. GITHUB_REPOSITORY e = Some repository \<and>
        owner = first_of (js_split slash repository) \<and>
        repo = second_of (js_split slash repository)) \<and>
     listJobsForWorkflowRun w (GITHUB_TOKEN e)
       (ListJobsForWorkflowRun owner repo (WORKFLOW_RUN_ID e)) = Inr jobs \<and>
     tr = environment_check e @
       [Log (lit ''Fetching workflow run details...''),
        GitHub (GITHUB_TOKEN e) (GetWorkflowRun owner repo (WORKFLOW_RUN_ID e)),
        GitHub (GITHUB_TOKEN e) (ListJobsForWorkflowRun owner repo (WORKFLOW_RUN_ID e))]"
  by (auto simp: locate_def Let_def split: if_splits option.splits sum.splits)

lemma environment_check_quiet:
  "filter is_request (environment_check e) = []"
  "filter is_comment (environment_check e) = []"
  "filter is_inference (environment_check e) = []"
  by (simp_all add: environment_check_def)

lemma main_extracted:
  assumes "locate e w = Inr (owner, repo, jobs, tr)" and "failedJobs jobs \<noteq> []"
  shows "main e w =
     diagnose e w owner repo
       (concat (map (job_section w (GITHUB_TOKEN e) owner repo) (failedJobs jobs)))
       (tr @ [Log (lit ''Found '' @ decimal (length (failedJobs jobs)) @ lit '' failed job(s)'')] @
        concat (map (job_effects w (GITHUB_TOKEN e) owner repo) (failedJobs jobs)))"
  using assms by (simp add: main_def for_jobs_eq)

section \<open>Salient-line extraction\<close>

text \<open>
  Claim C1.  For every log text, salient-line extraction splits the text into its
  lines (the pieces between line feeds: joined again by line feeds they give the text
  back, and none contains a line feed), keeps exactly the lines in which one of the five
  literal patterns \<open>Error\<close>, \<open>FAILED\<close>, \<open>error:\<close>, \<open>ERROR\<close>, \<open>FAILURE\<close> occurs, in their
  original order, and of these keeps the final ten: the result is the suffix of the
  matching lines of length \<open>min 10\<close> of their number.  The line
  \<open>INFO: build error: disk full\<close> is salient and \<open>INFO: build complete\<close> is not;
  the match is case-sensitive, so \<open>warning: failed with errors\<close> is not salient
  either.
\<close>

theorem errorLines_spec:
  "js_join [nl] (js_split nl logText) = logText \<and>
   (\<forall>l \<in> set (js_split nl logText). nl \<notin> set l) \<and>
   suffix (errorLines logText) (filter spec_salient (js_split nl logText)) \<and>
   length (errorLines logText) = min 10 (length (filter spec_salient (js_split nl logText))) \<and>
   salient (lit ''INFO: build error: disk full'') \<and>
   \<not> salient (lit ''INFO: build complete'') \<and>
   \<not> salient (lit ''warning: failed with errors'')"
proof -
  have sal: "filter salient = filter spec_salient"
    by (rule ext) (simp add: salient_iff_spec cong: filter_cong)
  have e: "errorLines logText =
      drop (length (filter spec_salient (js_split nl logText)) - 10)
        (filter spec_salient (js_split nl logText))"
    using js_slice_neg [of 10 "filter salient (js_split nl logText)"]
    by (simp add: errorLines_def sal)
  have 1: "js_join [nl] (js_split nl logText) = logText"
    by (simp add: js_split_def join_split_from)
  have 2: "\<forall>l \<in> set (js_split nl logText). nl \<notin> set l"
    by (auto simp: js_split_def dest: split_from_no_sep [rotated])
  have 3: "suffix (errorLines logText) (filter spec_salient (js_split nl logText))"
    unfolding e by (rule suffix_drop)
  have 4: "length (errorLines logText) = min 10 (length (filter spec_salient (js_split nl logText)))"
    unfolding e by simp
  have 5: "salient (lit ''INFO: build error: disk full'')"
    by (simp add: salient_def lit_def)
  have 6: "\<not> salient (lit ''INFO: build complete'')"
    by (simp add: salient_def lit_def)
  have 7: "\<not> salient (lit ''warning: failed with errors'')"
    by (simp add: salient_def lit_def)
  from 1 2 3 4 5 6 7 show ?thesis
    by blast
qed

theorem errorLines_spec_witness:
  "suffix [lit ''ERROR2'', lit ''ERROR3'', lit ''ERROR4'', lit ''ERROR5'', lit ''ERROR6'',
           lit ''ERROR7'', lit ''ERROR8'', lit ''ERROR9'', lit ''error: a'', lit ''FAILED b'']
     (filter spec_salient (js_split nl sample_log)) \<and>
   js_join [nl] (js_split nl sample_log) = sample_log"
proof -
  have e: "errorLines sample_log =
       [lit ''ERROR2'', lit ''ERROR3'', lit ''ERROR4'', lit ''ERROR5'', lit ''ERROR6'',
        lit ''ERROR7'', lit ''ERROR8'', lit ''ERROR9'', lit ''error: a'', lit ''FAILED b'']"
    by (simp add: sample_log_def errorLines_def js_split_def salient_def js_slice_def lit_def nl_def)
  show ?thesis
    using errorLines_spec [of sample_log] unfolding e by blast
qed

section \<open>Log Extractor: sections and their order\<close>

text \<open>
  Claim C7.  For every job list, the loop over the retained jobs appends the per-job
  sections to the blob in exactly the order of the job list: the blob after the loop is
  the blob before it followed by the sections of the retained jobs, one after another.
  The retained jobs are the jobs of the input list whose conclusion is \<open>failure\<close>, in
  the order of the input list.  This holds whatever the shape of a section, which is
  either the degraded one or one that begins with the four header lines.
\<close>

theorem sections_in_job_order:
  "fst (for_jobs w token owner repo (failedJobs jobs) (blob, tr)) =
     blob @ concat (map (job_section w token owner repo) (failedJobs jobs)) \<and>
   failedJobs jobs = filter (\<lambda>job. conclusion job = Some (lit ''failure'')) jobs \<and>
   subseq (failedJobs jobs) jobs \<and>
   (job_section w token owner repo job = degraded_section job \<or>
    prefix (header_section job) (job_section w token owner repo job))"
proof -
  have "subseq (failedJobs jobs) jobs"
    by (simp add: failedJobs_def)
  moreover have "job_section w token owner repo job = degraded_section job \<or>
      prefix (header_section job) (job_section w token owner repo job)"
    by (simp add: job_section_cases split: sum.splits)
  ultimately show ?thesis
    by (simp add: for_jobs_eq failedJobs_def)
qed

text \<open>
  Claim C10.  If the log download of a job succeeds with absent data, with empty data,
  or with a log that has no salient line, the section of the job is the four header
  lines only (job name, conclusion, start and end time stamps): no block of error
  messages and no degraded note.  The round of the loop issues the download and nothing
  else, and the loop goes on with the remaining jobs.
\<close>

theorem header_only_section:
  assumes "downloadJobLogsForWorkflowRun w token
             (DownloadJobLogsForWorkflowRun owner repo (job_id job)) = Inr data"
    and "data = None \<or> data = Some [] \<or> (\<exists>logText. data = Some logText \<and> errorLines logText = [])"
  shows "job_section w token owner repo job = header_section job \<and>
     process_job w token owner repo job (blob, tr) =
       (blob @ header_section job,
        tr @ [Log (lit ''Getting logs for job: '' @ job_name job),
              GitHub token (DownloadJobLogsForWorkflowRun owner repo (job_id job))]) \<and>
     for_jobs w token owner repo (job # rest) (blob, tr) =
       for_jobs w token owner repo rest
         (blob @ header_section job,
          tr @ [Log (lit ''Getting logs for job: '' @ job_name job),
                GitHub token (DownloadJobLogsForWorkflowRun owner repo (job_id job))])"
proof -
  from assms have s: "job_section w token owner repo job = header_section job"
    by (auto simp: job_section_cases)
  from assms(1) have t: "job_effects w token owner repo job =
      [Log (lit ''Getting logs for job: '' @ job_name job),
       GitHub token (DownloadJobLogsForWorkflowRun owner repo (job_id job))]"
    by (simp add: job_effects_cases)
  show ?thesis
    by (simp add: process_job_eq s t)
qed

theorem header_only_section_witness:
  "job_section sample_world (Some (lit ''token'')) (Some (lit ''octo'')) (Some (lit ''demo'')) docs_job =
     header_section docs_job \<and>
   \<not> js_includes (header_section docs_job) (lit ''Key error messages'') \<and>
   \<not> js_includes (header_section docs_job) (lit ''Could not fetch detailed logs'')"
proof -
  have d: "downloadJobLogsForWorkflowRun sample_world (Some (lit ''token''))
      (DownloadJobLogsForWorkflowRun (Some (lit ''octo'')) (Some (lit ''demo'')) (job_id docs_job)) =
      Inr None"
    by (simp add: sample_world_def sample_logs_def docs_job_def)
  have n: "\<not> js_includes (header_section docs_job) (lit ''Key error messages'') \<and>
      \<not> js_includes (header_section docs_job) (lit ''Could not fetch detailed logs'')"
    by (simp add: header_section_def docs_job_def str_null_def lit_def nl_def)
  from header_only_section [OF d] n show ?thesis
    by simp
qed

section \<open>Facts about the sample inputs\<close>

lemma sample_env_fields:
  "WORKFLOW_RUN_ID sample_env = Some (lit ''555'')"
  "WORKFLOW_NAME sample_env = Some (lit ''CI'')"
  "HEAD_SHA sample_env = Some (lit ''0a1b2c3'')"
  "PULL_REQUEST_NUMBER sample_env = Some (lit ''42'')"
  "GITHUB_TOKEN sample_env = Some (lit ''token'')"
  "GITHUB_REPOSITORY sample_env = Some (lit ''octo/demo'')"
  "AWS_ACCESS_KEY_ID sample_env = Some (lit ''key'')"
  "AWS_SECRET_ACCESS_KEY sample_env = Some (lit ''secret'')"
  "AWS_SESSION_TOKEN sample_env = None"
  "AWS_REGION sample_env = None"
  by (simp_all add: sample_env_def)

lemma split_octo_demo: "js_split slash (lit ''octo/demo'') = [lit ''octo'', lit ''demo'']"
  by (simp add: js_split_def lit_def slash_def)

lemma truthy_lit: "truthy (Some (lit ''555''))" "truthy (Some (lit ''key''))" "truthy (Some (lit ''secret''))"
  "truthy (Some (lit ''42''))"
  by (simp_all add: truthy_def lit_def)

lemma locate_sample:
  "getWorkflowRun w (Some (lit ''token''))
     (GetWorkflowRun (Some (lit ''octo'')) (Some (lit ''demo'')) (Some (lit ''555''))) = Inr run \<Longrightarrow>
   listJobsForWorkflowRun w (Some (lit ''token''))
     (ListJobsForWorkflowRun (Some (lit ''octo'')) (Some (lit ''demo'')) (Some (lit ''555''))) = Inr jobs \<Longrightarrow>
   locate sample_env w =
     Inr (Some (lit ''octo''), Some (lit ''demo''), jobs,
       environment_check sample_env @
       [Log (lit ''Fetching workflow run details...''),
        GitHub (Some (lit ''token''))
          (GetWorkflowRun (Some (lit ''octo'')) (Some (lit ''demo'')) (Some (lit ''555''))),
        GitHub (Some (lit ''token''))
          (ListJobsForWorkflowRun (Some (lit ''octo'')) (Some (lit ''demo'')) (Some (lit ''555'')))])"
  by (simp add: locate_def Let_def sample_env_fields truthy_lit split_octo_demo first_of_def second_of_def)

section \<open>Early exits\<close>

text \<open>
  Claim C2.  For every run whose job list, as the Run Locator obtained it, contains no
  job with conclusion \<open>failure\<close>, the pipeline stops after the job-listing stage: the
  only requests of the run are the fetch of the run and the listing of its jobs, there
  is no inference call and no comment post, and the process exits with status 0.
\<close>

theorem no_failed_jobs_stops:
  assumes "locate e w = Inr (owner, repo, jobs, tr)"
    and "\<forall>job \<in> set jobs. conclusion job \<noteq> Some (lit ''failure'')"
  shows "main e w = \<lparr>exit_code = 0, effects = tr @ [Log (lit ''No failed jobs found'')]\<rparr> \<and>
     exit_code (main e w) = 0 \<and>
     filter is_inference (effects (main e w)) = [] \<and>
     filter is_comment (effects (main e w)) = [] \<and>
     filter is_request (effects (main e w)) =
       [GitHub (GITHUB_TOKEN e) (GetWorkflowRun owner repo (WORKFLOW_RUN_ID e)),
        GitHub (GITHUB_TOKEN e) (ListJobsForWorkflowRun owner repo (WORKFLOW_RUN_ID e))]"
proof -
  from assms(2) have none: "failedJobs jobs = []"
    by (simp add: failedJobs_def)
  from assms(1) have m: "main e w = \<lparr>exit_code = 0, effects = tr @ [Log (lit ''No failed jobs found'')]\<rparr>"
    by (simp add: main_def none)
  from locate_Inr [OF assms(1)] have tr: "tr = environment_check e @
       [Log (lit ''Fetching workflow run details...''),
        GitHub (GITHUB_TOKEN e) (GetWorkflowRun owner repo (WORKFLOW_RUN_ID e)),
        GitHub (GITHUB_TOKEN e) (ListJobsForWorkflowRun owner repo (WORKFLOW_RUN_ID e))]"
    by simp
  show ?thesis
    unfolding m by (simp add: tr environment_check_quiet)
qed

theorem no_failed_jobs_stops_witness:
  "exit_code (main sample_env green_world) = 0 \<and>
   filter is_inference (effects (main sample_env green_world)) = [] \<and>
   filter is_comment (effects (main sample_env green_world)) = []"
proof -
  have l: "locate sample_env green_world =
     Inr (Some (lit ''octo''), Some (lit ''demo''), [lint_job],
       environment_check sample_env @
       [Log (lit ''Fetching workflow run details...''),
        GitHub (Some (lit ''token''))
          (GetWorkflowRun (Some (lit ''octo'')) (Some (lit ''demo'')) (Some (lit ''555''))),
        GitHub (Some (lit ''token''))
          (ListJobsForWorkflowRun (Some (lit ''octo'')) (Some (lit ''demo'')) (Some (lit ''555'')))])"
    by (rule locate_sample) (simp_all add: green_world_def sample_world_def)
  have j: "\<forall>job \<in> set [lint_job]. conclusion job \<noteq> Some (lit ''failure'')"
    by (simp add: lint_job_def lit_def)
  from no_failed_jobs_stops [OF l j] show ?thesis
    by blast
qed

text \<open>
  Claim C3, as the script has it.  The check of the two credentials comes before
  the check of the run identifier, so an absent run identifier alone does not give a
  skip: with both credentials missing the run ends with status 1 and without the skip
  message.
\<close>

theorem missing_run_id_counterexample:
  "\<not> truthy (WORKFLOW_RUN_ID empty_env) \<and>
   exit_code (main empty_env unreachable_world) = 1 \<and>
   Log (lit ''No workflow run ID found, skipping...'') \<notin> set (effects (main empty_env unreachable_world))"
  by (simp add: main_def locate_def Let_def empty_env_def truthy_def environment_check_def lit_def)

text \<open>
  Claim C3, amended.  Whenever the run identifier is absent (undefined or empty), the
  pipeline performs no external call; if both credentials are present it logs the skip
  message and ends normally with status 0, a terminal skip and not an error, and if a
  credential is missing it logs the missing credentials and exits with status 1.
\<close>

theorem missing_run_id_skips:
  assumes "\<not> truthy (WORKFLOW_RUN_ID e)"
  shows "main e w =
      (if truthy (AWS_ACCESS_KEY_ID e) \<and> truthy (AWS_SECRET_ACCESS_KEY e)
       then \<lparr>exit_code = 0,
             effects = environment_check e @ [Log (lit ''No workflow run ID found, skipping...'')]\<rparr>
       else \<lparr>exit_code = 1,
             effects = environment_check e @
               [LogError (lit ''AWS credentials not found in environment variables'')]\<rparr>) \<and>
     filter is_request (effects (main e w)) = []"
  using assms by (simp add: main_def locate_def Let_def environment_check_quiet)

theorem missing_run_id_skips_witness:
  "main no_run_env unreachable_world =
     \<lparr>exit_code = 0,
      effects = environment_check no_run_env @ [Log (lit ''No workflow run ID found, skipping...'')]\<rparr> \<and>
   filter is_request (effects (main no_run_env unreachable_world)) = []"
proof -
  have r: "\<not> truthy (WORKFLOW_RUN_ID no_run_env)"
    by (simp add: no_run_env_def truthy_def)
  have c: "truthy (AWS_ACCESS_KEY_ID no_run_env) \<and> truthy (AWS_SECRET_ACCESS_KEY no_run_env)"
    by (simp add: no_run_env_def sample_env_fields truthy_lit)
  from missing_run_id_skips [OF r, of unreachable_world]
  have m: "main no_run_env unreachable_world =
      (if truthy (AWS_ACCESS_KEY_ID no_run_env) \<and> truthy (AWS_SECRET_ACCESS_KEY no_run_env)
       then \<lparr>exit_code = 0,
             effects = environment_check no_run_env @ [Log (lit ''No workflow run ID found, skipping...'')]\<rparr>
       else \<lparr>exit_code = 1,
             effects = environment_check no_run_env @
               [LogError (lit ''AWS credentials not found in environment variables'')]\<rparr>)"
    and q: "filter is_request (effects (main no_run_env unreachable_world)) = []"
    by blast+
  from m c have "main no_run_env unreachable_world =
     \<lparr>exit_code = 0,
      effects = environment_check no_run_env @ [Log (lit ''No workflow run ID found, skipping...'')]\<rparr>"
    by simp
  with q show ?thesis
    by blast
qed

section \<open>The fetched run object\<close>

lemma process_job_run_update:
  "process_job (w\<lparr>getWorkflowRun := g\<rparr>) = process_job w"
  by (intro ext) (simp add: process_job_def Let_def)

lemma for_jobs_run_update:
  "for_jobs (w\<lparr>getWorkflowRun := g\<rparr>) token owner repo jobs st = for_jobs w token owner repo jobs st"
  by (induction jobs arbitrary: st) (simp_all add: process_job_run_update)

lemma report_run_update:
  "report e (w\<lparr>getWorkflowRun := g\<rparr>) = report e w"
  by (intro ext) (simp add: report_def Let_def)

lemma diagnose_run_update:
  "diagnose e (w\<lparr>getWorkflowRun := g\<rparr>) = diagnose e w"
  by (intro ext) (simp add: diagnose_def Let_def report_run_update split: sum.splits response_body.splits)

lemma locate_run_update:
  "locate e (w\<lparr>getWorkflowRun := (\<lambda>token request. Inr (run1 token request))\<rparr>) =
   locate e (w\<lparr>getWorkflowRun := (\<lambda>token request. Inr (run2 token request))\<rparr>)"
  by (simp add: locate_def Let_def split: option.splits)

text \<open>
  Claim C9.  The response of the fetch of the run never influences the run: for any
  two ways \<open>run1\<close> and \<open>run2\<close> of answering that call with a run object, all other
  inputs being equal, the two runs have the same exit status and the same effects, hence
  the same prompt in the inference request, the same comment body and the same posting
  target.
\<close>

theorem run_metadata_unused:
  "main e (w\<lparr>getWorkflowRun := (\<lambda>token request. Inr (run1 token request))\<rparr>) =
   main e (w\<lparr>getWorkflowRun := (\<lambda>token request. Inr (run2 token request))\<rparr>)"
proof -
  have "locate e (w\<lparr>getWorkflowRun := (\<lambda>token request. Inr (run1 token request))\<rparr>) =
      locate e (w\<lparr>getWorkflowRun := (\<lambda>token request. Inr (run2 token request))\<rparr>)"
    by (rule locate_run_update)
  then show ?thesis
    unfolding main_def for_jobs_run_update diagnose_run_update by simp
qed

section \<open>Facts about the later stages\<close>

lemma report_target:
  "\<exists>final. effects (report e w owner repo analysis tr) =
      tr @ [Log (lit ''Creating comment with analysis...''),
            GitHub (GITHUB_TOKEN e)
              (posting_target e owner repo (commentBody analysis (WORKFLOW_NAME e))),
            final] \<and>
      \<not> is_comment final \<and> \<not> is_inference final \<and> \<not> is_request final"
  by (simp add: report_def posting_target_def Let_def fatal_def truthy_def str_undef_def
      split: option.splits sum.splits)

lemma report_post_failure:
  "post w (GITHUB_TOKEN e)
      (posting_target e owner repo (commentBody analysis (WORKFLOW_NAME e))) = Inl err \<Longrightarrow>
   report e w owner repo analysis tr =
     fatal err (tr @ [Log (lit ''Creating comment with analysis...''),
                      GitHub (GITHUB_TOKEN e)
                        (posting_target e owner repo (commentBody analysis (WORKFLOW_NAME e)))])"
  by (auto simp: report_def posting_target_def post_def Let_def truthy_def str_undef_def
      split: option.splits if_splits)

lemma diagnose_cases:
  "diagnose e w owner repo failureDetails tr =
     (case send w (bedrockClient e)
             (InvokeModelCommand
               (analysisPrompt (WORKFLOW_NAME e) (WORKFLOW_RUN_ID e) owner repo failureDetails)) of
        Inl err \<Rightarrow>
          fatal err
            (tr @ [Log (lit ''Analyzing failure with Claude via Bedrock...''),
                   Bedrock (bedrockClient e)
                     (InvokeModelCommand
                       (analysisPrompt (WORKFLOW_NAME e) (WORKFLOW_RUN_ID e) owner repo failureDetails))])
      | Inr Malformed \<Rightarrow>
          fatal SyntaxError
            (tr @ [Log (lit ''Analyzing failure with Claude via Bedrock...''),
                   Bedrock (bedrockClient e)
                     (InvokeModelCommand
                       (analysisPrompt (WORKFLOW_NAME e) (WORKFLOW_RUN_ID e) owner repo failureDetails)),
                   Log (lit ''Bedrock analysis successful'')])
      | Inr (Json responseBody) \<Rightarrow>
          (case response_text responseBody of
             Inl err \<Rightarrow>
               fatal err
                 (tr @ [Log (lit ''Analyzing failure with Claude via Bedrock...''),
                        Bedrock (bedrockClient e)
                          (InvokeModelCommand
                            (analysisPrompt (WORKFLOW_NAME e) (WORKFLOW_RUN_ID e) owner repo failureDetails)),
                        Log (lit ''Bedrock analysis successful'')])
           | Inr analysis \<Rightarrow>
               report e w owner repo analysis
                 (tr @ [Log (lit ''Analyzing failure with Claude via Bedrock...''),
                        Bedrock (bedrockClient e)
                          (InvokeModelCommand
                            (analysisPrompt (WORKFLOW_NAME e) (WORKFLOW_RUN_ID e) owner repo failureDetails)),
                        Log (lit ''Bedrock analysis successful'')])))"
  by (simp add: diagnose_def Let_def split: sum.splits response_body.splits)

lemma diagnose_effects:
  "\<exists>rest. effects (diagnose e w owner repo failureDetails tr) =
      tr @ [Log (lit ''Analyzing failure with Claude via Bedrock...''),
            Bedrock (bedrockClient e)
              (InvokeModelCommand
                (analysisPrompt (WORKFLOW_NAME e) (WORKFLOW_RUN_ID e) owner repo failureDetails))] @ rest \<and>
      filter is_inference rest = [] \<and> length (filter is_comment rest) \<le> 1"
proof -
  let ?tr = "tr @ [Log (lit ''Analyzing failure with Claude via Bedrock...''),
            Bedrock (bedrockClient e)
              (InvokeModelCommand
                (analysisPrompt (WORKFLOW_NAME e) (WORKFLOW_RUN_ID e) owner repo failureDetails)),
            Log (lit ''Bedrock analysis successful'')]"
  have r: "\<And>analysis. \<exists>rest. effects (report e w owner repo analysis ?tr) = ?tr @ rest \<and>
      filter is_inference rest = [] \<and> length (filter is_comment rest) \<le> 1"
  proof -
    fix analysis
    from report_target [of e w owner repo analysis ?tr] obtain final where
      "effects (report e w owner repo analysis ?tr) =
        ?tr @ [Log (lit ''Creating comment with analysis...''),
            GitHub (GITHUB_TOKEN e)
              (posting_target e owner repo (commentBody analysis (WORKFLOW_NAME e))),
            final]" and "\<not> is_comment final" and "\<not> is_inference final"
      by blast
    then show "\<exists>rest. effects (report e w owner repo analysis ?tr) = ?tr @ rest \<and>
      filter is_inference rest = [] \<and> length (filter is_comment rest) \<le> 1"
      by simp
  qed
  show ?thesis
  proof (cases "send w (bedrockClient e)
             (InvokeModelCommand
               (analysisPrompt (WORKFLOW_NAME e) (WORKFLOW_RUN_ID e) owner repo failureDetails))")
    case (Inl err)
    then show ?thesis
      by (simp add: diagnose_cases fatal_def)
  next
    case (Inr response)
    show ?thesis
    proof (cases response)
      case Malformed
      with Inr show ?thesis
        by (simp add: diagnose_cases fatal_def)
    next
      case (Json responseBody)
      show ?thesis
      proof (cases "response_text responseBody")
        case (Inl err)
        with Inr Json show ?thesis
          by (simp add: diagnose_cases fatal_def)
      next
        case (Inr analysis)
        from r [of analysis] obtain rest where
          "effects (report e w owner repo analysis ?tr) = ?tr @ rest"
          "filter is_inference rest = []" "length (filter is_comment rest) \<le> 1"
          by blast
        with Inr Json \<open>send w _ _ = Inr response\<close> show ?thesis
          by (simp add: diagnose_cases)
      qed
    qed
  qed
qed

lemma locate_Inl_quiet:
  "locate e w = Inl ended \<Longrightarrow>
     filter is_inference (effects ended) = [] \<and> filter is_comment (effects ended) = []"
  by (auto simp: locate_def Let_def fatal_def environment_check_quiet
      split: if_splits option.splits sum.splits)

lemma main_bounds:
  "length (filter is_inference (effects (main e w))) \<le> 1 \<and>
   length (filter is_comment (effects (main e w))) \<le> 1"
proof (cases "locate e w")
  case (Inl ended)
  with locate_Inl_quiet [OF Inl] show ?thesis
    by (simp add: main_def)
next
  case (Inr located)
  obtain owner repo jobs tr where l: "locate e w = Inr (owner, repo, jobs, tr)"
    using Inr by (cases located) auto
  from locate_Inr [OF l] have q: "filter is_inference tr = []" "filter is_comment tr = []"
    by (simp_all add: environment_check_quiet)
  show ?thesis
  proof (cases "failedJobs jobs = []")
    case True
    with l q show ?thesis
      by (simp add: main_def)
  next
    case False
    let ?blob = "concat (map (job_section w (GITHUB_TOKEN e) owner repo) (failedJobs jobs))"
    let ?tr = "tr @ [Log (lit ''Found '' @ decimal (length (failedJobs jobs)) @ lit '' failed job(s)'')] @
        concat (map (job_effects w (GITHUB_TOKEN e) owner repo) (failedJobs jobs))"
    from diagnose_effects [of e w owner repo ?blob ?tr] obtain rest where
      "effects (diagnose e w owner repo ?blob ?tr) =
        ?tr @ [Log (lit ''Analyzing failure with Claude via Bedrock...''),
            Bedrock (bedrockClient e)
              (InvokeModelCommand
                (analysisPrompt (WORKFLOW_NAME e) (WORKFLOW_RUN_ID e) owner repo ?blob))] @ rest"
      "filter is_inference rest = []" "length (filter is_comment rest) \<le> 1"
      by blast
    with q show ?thesis
      by (simp add: main_extracted [OF l False] jobs_effects_quiet)
  qed
qed

lemma js_includes_refl: "js_includes x x"
  using js_includes_appendI [of "[]" x "[]"] by simp

section \<open>Facts about trimming, printing and parsing\<close>

declare decimal.simps [simp del]

lemma js_trim_spec:
  "\<exists>before after. s = before @ js_trim s @ after \<and>
     list_all is_whitespace before \<and> list_all is_whitespace after \<and>
     (js_trim s = [] \<or>
      (\<not> is_whitespace (hd (js_trim s)) \<and> \<not> is_whitespace (last (js_trim s))))"
proof -
  let ?d = "dropWhile is_whitespace s"
  let ?t = "takeWhile is_whitespace (rev ?d)"
  have "rev (dropWhile is_whitespace (rev ?d)) @ rev ?t =
      rev (?t @ dropWhile is_whitespace (rev ?d))"
    by (simp only: rev_append)
  also have "?t @ dropWhile is_whitespace (rev ?d) = rev ?d"
    by (rule takeWhile_dropWhile_id)
  finally have d: "?d = js_trim s @ rev ?t"
    by (simp only: js_trim_def rev_rev_ident)
  have "s = takeWhile is_whitespace s @ ?d"
    by simp
  with d have 1: "s = takeWhile is_whitespace s @ js_trim s @ rev ?t"
    by simp
  have 2: "list_all is_whitespace (takeWhile is_whitespace s)"
    by (auto simp: list_all_iff dest: set_takeWhileD)
  have 3: "list_all is_whitespace (rev ?t)"
    by (auto simp: list_all_iff dest: set_takeWhileD)
  have 4: "\<not> is_whitespace (hd (js_trim s))" if "js_trim s \<noteq> []"
  proof -
    from that d have "?d \<noteq> []"
      by (metis append_is_Nil_conv)
    then have "\<not> is_whitespace (hd ?d)"
      by (rule hd_dropWhile)
    moreover from that d have "hd ?d = hd (js_trim s)"
      by (metis hd_append2)
    ultimately show ?thesis
      by simp
  qed
  have 5: "\<not> is_whitespace (last (js_trim s))" if "js_trim s \<noteq> []"
  proof -
    from that have ne: "dropWhile is_whitespace (rev ?d) \<noteq> []"
      by (simp add: js_trim_def)
    then have "\<not> is_whitespace (hd (dropWhile is_whitespace (rev ?d)))"
      by (rule hd_dropWhile)
    moreover from ne have "last (js_trim s) = hd (dropWhile is_whitespace (rev ?d))"
      by (simp add: js_trim_def last_rev)
    ultimately show ?thesis
      by simp
  qed
  from 1 2 3 4 5 show ?thesis
    by blast
qed

lemma unat_digit: "d < 10 \<Longrightarrow> unat (of_nat (48 + d) :: 16 word) = 48 + d"
  by (simp only: unat_of_nat) simp

lemma digit_value_decimal_digit:
  "48 \<le> unat c \<Longrightarrow> unat c \<le> 57 \<Longrightarrow> digit_value c = Some (unat c - 48)"
  by (simp add: digit_value_def Let_def)

lemma decimal_digits: "list_all (\<lambda>c. 48 \<le> unat c \<and> unat c \<le> 57) (decimal n)"
proof (induction n rule: decimal.induct)
  case (1 n)
  show ?case
  proof (cases "n < 10")
    case True
    then have "decimal n = [of_nat (48 + n)]"
      by (subst decimal.simps) simp
    with unat_digit [OF True] True show ?thesis
      by (simp add: list_all_iff del: of_nat_add)
  next
    case False
    with 1 have ih: "list_all (\<lambda>c. 48 \<le> unat c \<and> unat c \<le> 57) (decimal (n div 10))"
      by simp
    have u: "unat (of_nat (48 + n mod 10) :: 16 word) = 48 + n mod 10"
      by (rule unat_digit) simp
    from False have "decimal n = decimal (n div 10) @ [of_nat (48 + n mod 10)]"
      by (subst decimal.simps) simp
    with ih u show ?thesis
      by (simp add: list_all_iff del: of_nat_add)
  qed
qed

lemma digits_value_snoc:
  "digits_value radix (ds @ [c]) =
     digits_value radix ds * radix + (case digit_value c of None \<Rightarrow> 0 | Some d \<Rightarrow> d)"
  by (simp add: digits_value_def)

lemma digits_value_decimal: "digits_value 10 (decimal n) = n"
proof (induction n rule: decimal.induct)
  case (1 n)
  show ?case
  proof (cases "n < 10")
    case True
    then have "decimal n = [of_nat (48 + n)]"
      by (subst decimal.simps) simp
    moreover have "digit_value (of_nat (48 + n) :: 16 word) = Some n"
      using digit_value_decimal_digit [of "of_nat (48 + n)"] unat_digit [OF True] True
      by (simp del: of_nat_add)
    ultimately show ?thesis
      by (simp only: digits_value_def foldl.simps) simp
  next
    case False
    with 1 have ih: "digits_value 10 (decimal (n div 10)) = n div 10"
      by simp
    have "unat (of_nat (48 + n mod 10) :: 16 word) = 48 + n mod 10"
      by (rule unat_digit) simp
    then have dv: "digit_value (of_nat (48 + n mod 10) :: 16 word) = Some (n mod 10)"
      using digit_value_decimal_digit [of "of_nat (48 + n mod 10)"]
      by (simp del: of_nat_add)
    from False have "decimal n = decimal (n div 10) @ [of_nat (48 + n mod 10)]"
      by (subst decimal.simps) simp
    then show ?thesis
      by (simp only: digits_value_snoc ih dv) simp
  qed
qed

lemma decimal_not_Nil: "decimal n \<noteq> []"
  by (subst decimal.simps) simp

lemma digit_facts:
  assumes "48 \<le> unat c" and "unat c \<le> 57"
  shows "\<not> is_whitespace c" and "c \<noteq> 43" and "c \<noteq> 45" and "c \<noteq> 120" and "c \<noteq> 88"
    and "is_digit 10 c"
proof -
  from assms show "\<not> is_whitespace c"
    by (auto simp: is_whitespace_def)
  from assms show "c \<noteq> 43" "c \<noteq> 45" "c \<noteq> 120" "c \<noteq> 88"
    by auto
  from assms show "is_digit 10 c"
    by (simp add: is_digit_def digit_value_decimal_digit)
qed

lemma parseInt_decimal:
  assumes "n \<le> 2 ^ 53"
  shows "parseInt (decimal n) = Num (int n)"
proof -
  have all: "list_all (\<lambda>c. 48 \<le> unat c \<and> unat c \<le> 57) (decimal n)"
    by (rule decimal_digits)
  obtain c cs where dec: "decimal n = c # cs"
    using decimal_not_Nil [of n] by (cases "decimal n") auto
  from all dec have c: "48 \<le> unat c" "unat c \<le> 57"
    by simp_all
  have ws: "dropWhile is_whitespace (c # cs) = c # cs"
    using digit_facts(1) [OF c] by simp
  have nohex: "\<not> prefix (lit ''0x'') (c # cs)" "\<not> prefix (lit ''0X'') (c # cs)"
  proof -
    show "\<not> prefix (lit ''0x'') (c # cs)"
    proof
      assume "prefix (lit ''0x'') (c # cs)"
      then obtain r where "c # cs = [48, 120] @ r"
        by (auto simp: prefix_def lit_def)
      with all dec have "48 \<le> unat (120 :: 16 word) \<and> unat (120 :: 16 word) \<le> 57"
        by auto
      then show False
        by simp
    qed
    show "\<not> prefix (lit ''0X'') (c # cs)"
    proof
      assume "prefix (lit ''0X'') (c # cs)"
      then obtain r where "c # cs = [48, 88] @ r"
        by (auto simp: prefix_def lit_def)
      with all dec have "48 \<le> unat (88 :: 16 word) \<and> unat (88 :: 16 word) \<le> 57"
        by auto
      then show False
        by simp
    qed
  qed
  have tw: "takeWhile (is_digit 10) (c # cs) = c # cs"
    using all dec by (auto simp: takeWhile_eq_all_conv list_all_iff intro: digit_facts(6))
  have sign: "c \<noteq> 43" "c \<noteq> 45"
    using digit_facts(2,3) [OF c] by simp_all
  have dv: "digits_value 10 (c # cs) = n"
    using digits_value_decimal [of n] by (simp only: dec)
  from assms have small: "\<bar>int n\<bar> \<le> 2 ^ 53"
    by (metis abs_of_nat of_nat_le_iff of_nat_numeral of_nat_power)
  have "parseInt (c # cs) = Num (int n)"
    using nohex sign small
    by (simp add: parseInt_def Let_def ws tw dv del: dropWhile.simps takeWhile.simps)
  then show ?thesis
    by (simp only: dec)
qed

lemma js_includes_here: "js_includes (x @ ys) x"
  using js_includes_appendI [of "[]" x ys] by simp

lemma js_includes_skip: "js_includes ys x \<Longrightarrow> js_includes (p @ ys) x"
  using js_includes_mid [of ys x p "[]"] by simp

section \<open>Prompt Builder\<close>

text \<open>
  Claim C8.  The Prompt Builder is a function of the run name, the run identifier, the
  repository identity (owner and repo) and the aggregated blob alone, and it is one
  fixed instructional template: for all inputs the prompt is the same five pieces of
  text, given here in full, with the four values interpolated between them and nothing
  else.  The template asks for the root cause, for actionable steps, for preventive
  measures, for a concise answer and for markdown: each of the five instruction lines
  occurs in every prompt.  Each value that is present appears verbatim in the prompt,
  and so does every text that occurs in the blob, such as a log line
  \<open>Error: module not found\<close>.  (An input that is undefined is printed as
  \<open>undefined\<close>.)
\<close>

theorem analysisPrompt_template:
  "analysisPrompt workflowName workflowRunId repoOwner repoName blob =
     (lit ''You are a senior software engineer helping debug failed GitHub Actions. Analyze the following workflow failure and provide helpful insights.'' @ [nl] @
      [nl] @
      lit ''**Workflow Information:**'' @ [nl] @
      lit ''- Name: '') @
     str_undef workflowName @
     ([nl] @ lit ''- Run ID: '') @
     str_undef workflowRunId @
     ([nl] @ lit ''- Repository: '') @
     str_undef repoOwner @ [slash] @ str_undef repoName @
     ([nl] @
      [nl] @
      lit ''**Failure Details:**'' @ [nl]) @
     blob @
     ([nl] @
      [nl] @
      lit ''**Instructions:**'' @ [nl] @
      lit ''1. Identify the root cause of the failure'' @ [nl] @
      lit ''2. Provide specific, actionable steps to fix the issue'' @ [nl] @
      lit ''3. Suggest preventive measures if applicable'' @ [nl] @
      lit ''4. Keep your response concise but helpful'' @ [nl] @
      lit ''5. Format your response in markdown for GitHub comments'' @ [nl] @
      [nl] @
      lit ''Please provide your analysis:'') \<and>
   (\<exists>t1 t2 t3 t4 t5. \<forall>workflowName workflowRunId owner repo failureDetails.
      analysisPrompt workflowName workflowRunId owner repo failureDetails =
        t1 @ str_undef workflowName @ t2 @ str_undef workflowRunId @ t3 @
        str_undef owner @ [slash] @ str_undef repo @ t4 @ failureDetails @ t5) \<and>
   js_includes (analysisPrompt workflowName workflowRunId repoOwner repoName blob)
     (lit ''1. Identify the root cause of the failure'') \<and>
   js_includes (analysisPrompt workflowName workflowRunId repoOwner repoName blob)
     (lit ''2. Provide specific, actionable steps to fix the issue'') \<and>
   js_includes (analysisPrompt workflowName workflowRunId repoOwner repoName blob)
     (lit ''3. Suggest preventive measures if applicable'') \<and>
   js_includes (analysisPrompt workflowName workflowRunId repoOwner repoName blob)
     (lit ''4. Keep your response concise but helpful'') \<and>
   js_includes (analysisPrompt workflowName workflowRunId repoOwner repoName blob)
     (lit ''5. Format your response in markdown for GitHub comments'') \<and>
   js_includes (analysisPrompt (Some name) (Some runId) (Some owner) (Some repo) blob) name \<and>
   js_includes (analysisPrompt (Some name) (Some runId) (Some owner) (Some repo) blob) runId \<and>
   js_includes (analysisPrompt (Some name) (Some runId) (Some owner) (Some repo) blob)
     (owner @ [slash] @ repo) \<and>
   js_includes (analysisPrompt (Some name) (Some runId) (Some owner) (Some repo) blob) blob \<and>
   (js_includes blob line \<longrightarrow>
      js_includes (analysisPrompt workflowName workflowRunId repoOwner repoName blob) line)"
proof -
  have pieces: "analysisPrompt workflowName workflowRunId owner repo failureDetails =
        (lit ''You are a senior software engineer helping debug failed GitHub Actions. Analyze the following workflow failure and provide helpful insights.'' @ [nl] @
         [nl] @ lit ''**Workflow Information:**'' @ [nl] @ lit ''- Name: '') @
        str_undef workflowName @
        ([nl] @ lit ''- Run ID: '') @
        str_undef workflowRunId @
        ([nl] @ lit ''- Repository: '') @
        str_undef owner @ [slash] @ str_undef repo @
        ([nl] @ [nl] @ lit ''**Failure Details:**'' @ [nl]) @
        failureDetails @
        ([nl] @ [nl] @ lit ''**Instructions:**'' @ [nl] @
         lit ''1. Identify the root cause of the failure'' @ [nl] @
         lit ''2. Provide specific, actionable steps to fix the issue'' @ [nl] @
         lit ''3. Suggest preventive measures if applicable'' @ [nl] @
         lit ''4. Keep your response concise but helpful'' @ [nl] @
         lit ''5. Format your response in markdown for GitHub comments'' @ [nl] @
         [nl] @ lit ''Please provide your analysis:'')"
    for workflowName workflowRunId owner repo failureDetails
    by (simp add: analysisPrompt_def)
  then have ex: "\<exists>t1 t2 t3 t4 t5. \<forall>workflowName workflowRunId owner repo failureDetails.
      analysisPrompt workflowName workflowRunId owner repo failureDetails =
        t1 @ str_undef workflowName @ t2 @ str_undef workflowRunId @ t3 @
        str_undef owner @ [slash] @ str_undef repo @ t4 @ failureDetails @ t5"
    by blast
  then obtain t1 t2 t3 t4 t5 where tmpl:
    "\<And>workflowName workflowRunId owner repo failureDetails.
      analysisPrompt workflowName workflowRunId owner repo failureDetails =
        t1 @ str_undef workflowName @ t2 @ str_undef workflowRunId @ t3 @
        str_undef owner @ [slash] @ str_undef repo @ t4 @ failureDetails @ t5"
    by blast
  have i1: "js_includes (analysisPrompt workflowName workflowRunId repoOwner repoName blob)
     (lit ''1. Identify the root cause of the failure'')"
    unfolding analysisPrompt_def by (rule js_includes_here | rule js_includes_skip)+
  have i2: "js_includes (analysisPrompt workflowName workflowRunId repoOwner repoName blob)
     (lit ''2. Provide specific, actionable steps to fix the issue'')"
    unfolding analysisPrompt_def by (rule js_includes_here | rule js_includes_skip)+
  have i3: "js_includes (analysisPrompt workflowName workflowRunId repoOwner repoName blob)
     (lit ''3. Suggest preventive measures if applicable'')"
    unfolding analysisPrompt_def by (rule js_includes_here | rule js_includes_skip)+
  have i4: "js_includes (analysisPrompt workflowName workflowRunId repoOwner repoName blob)
     (lit ''4. Keep your response concise but helpful'')"
    unfolding analysisPrompt_def by (rule js_includes_here | rule js_includes_skip)+
  have i5: "js_includes (analysisPrompt workflowName workflowRunId repoOwner repoName blob)
     (lit ''5. Format your response in markdown for GitHub comments'')"
    unfolding analysisPrompt_def by (rule js_includes_here | rule js_includes_skip)+
  have a: "js_includes (analysisPrompt (Some name) (Some runId) (Some owner) (Some repo) blob) name"
    unfolding tmpl by (simp add: str_undef_def js_includes_appendI)
  have b: "js_includes (analysisPrompt (Some name) (Some runId) (Some owner) (Some repo) blob) runId"
    unfolding tmpl
    using js_includes_appendI [of "t1 @ name @ t2" runId "t3 @ owner @ [slash] @ repo @ t4 @ blob @ t5"]
    by (simp add: str_undef_def)
  have c: "js_includes (analysisPrompt (Some name) (Some runId) (Some owner) (Some repo) blob)
      (owner @ [slash] @ repo)"
    unfolding tmpl
    using js_includes_appendI [of "t1 @ name @ t2 @ runId @ t3" "owner @ [slash] @ repo" "t4 @ blob @ t5"]
    by (simp add: str_undef_def)
  have d: "js_includes blob line \<Longrightarrow>
      js_includes (analysisPrompt workflowName workflowRunId repoOwner repoName blob) line" for line
      workflowName workflowRunId repoOwner repoName
    unfolding tmpl
    using js_includes_mid [of blob line
        "t1 @ str_undef workflowName @ t2 @ str_undef workflowRunId @ t3 @
         str_undef repoOwner @ [slash] @ str_undef repoName @ t4" t5]
    by simp
  note p = pieces [of workflowName workflowRunId repoOwner repoName blob]
  show ?thesis
    by (intro conjI impI) (rule p ex i1 i2 i3 i4 i5 a b c d [OF js_includes_refl] | erule d)+
qed

theorem analysisPrompt_template_witness:
  "js_includes
     (analysisPrompt (Some (lit ''CI'')) (Some (lit ''555'')) (Some (lit ''octo'')) (Some (lit ''demo''))
        (job_section sample_world (Some (lit ''token'')) (Some (lit ''octo'')) (Some (lit ''demo''))
           build_job))
     (lit ''Error: module not found'')"
proof -
  have e: "errorLines build_log = [lit ''Error: module not found'']"
    by (simp add: build_log_def errorLines_def js_split_def salient_def js_slice_def lit_def nl_def)
  have "job_section sample_world (Some (lit ''token'')) (Some (lit ''octo'')) (Some (lit ''demo'')) build_job =
      header_section build_job @ [nl] @ lit ''Key error messages:'' @ [nl] @
        lit ''Error: module not found'' @ [nl]"
    by (simp add: job_section_cases sample_world_def sample_logs_def e)
       (simp add: build_job_def build_log_def lit_def)
  then have "js_includes
      (job_section sample_world (Some (lit ''token'')) (Some (lit ''octo'')) (Some (lit ''demo'')) build_job)
      (lit ''Error: module not found'')"
    using js_includes_appendI [of "header_section build_job @ [nl] @ lit ''Key error messages:'' @ [nl]"
        "lit ''Error: module not found''" "[nl]"]
    by simp
  with analysisPrompt_template show ?thesis
    by blast
qed

section \<open>Reporter\<close>

text \<open>
  Claim C4.  When the pipeline reaches the Reporter, exactly one comment-creation
  write occurs: after the console line that opens the Reporter comes one request, and
  what follows it is no comment creation.  The request carries the diagnosis wrapped
  in the fixed template, which begins with \<open>## \<close>, the robot emoji and
  \<open> Automated Failure Analysis\<close>.  It goes to the review request whose number was
  supplied, when a number was supplied and is not the literal \<open>null\<close>; to the
  triggering revision, identified by its hash, when the input is \<open>null\<close>, empty or
  absent; never to both, and no run of the pipeline creates more than one comment.
\<close>

theorem reporter_posts_once:
  "(\<exists>final. effects (report e w owner repo analysis tr) =
       tr @ [Log (lit ''Creating comment with analysis...''),
             GitHub (GITHUB_TOKEN e)
               (posting_target e owner repo (commentBody analysis (WORKFLOW_NAME e))),
             final] \<and>
       \<not> is_comment final) \<and>
   prefix (lit ''## '' @ [0xD83E, 0xDD16] @ lit '' Automated Failure Analysis'')
     (commentBody analysis (WORKFLOW_NAME e)) \<and>
   js_includes (commentBody analysis (WORKFLOW_NAME e)) analysis \<and>
   (n \<le> 2 ^ 53 \<longrightarrow>
      posting_target (e\<lparr>PULL_REQUEST_NUMBER := Some (decimal n)\<rparr>) owner repo body =
        CreateComment owner repo (Num (int n)) body) \<and>
   posting_target (e\<lparr>PULL_REQUEST_NUMBER := Some (lit ''null'')\<rparr>) owner repo body =
     CreateCommitComment owner repo (HEAD_SHA e) body \<and>
   posting_target (e\<lparr>PULL_REQUEST_NUMBER := Some []\<rparr>) owner repo body =
     CreateCommitComment owner repo (HEAD_SHA e) body \<and>
   posting_target (e\<lparr>PULL_REQUEST_NUMBER := None\<rparr>) owner repo body =
     CreateCommitComment owner repo (HEAD_SHA e) body \<and>
   length (filter is_comment (effects (main e w))) \<le> 1"
proof -
  have 1: "\<exists>final. effects (report e w owner repo analysis tr) =
       tr @ [Log (lit ''Creating comment with analysis...''),
             GitHub (GITHUB_TOKEN e)
               (posting_target e owner repo (commentBody analysis (WORKFLOW_NAME e))),
             final] \<and>
       \<not> is_comment final"
    using report_target [of e w owner repo analysis tr] by blast
  have 2: "prefix (lit ''## '' @ [0xD83E, 0xDD16] @ lit '' Automated Failure Analysis'')
     (commentBody analysis (WORKFLOW_NAME e))"
    by (simp add: commentBody_def comment_heading_def)
  have 3: "js_includes (commentBody analysis (WORKFLOW_NAME e)) analysis"
    unfolding commentBody_def
    using js_includes_appendI [of "comment_heading @ [nl] @ [nl]" analysis]
    by simp
  have 4: "posting_target (e\<lparr>PULL_REQUEST_NUMBER := Some (decimal n)\<rparr>) owner repo body =
        CreateComment owner repo (Num (int n)) body" if "n \<le> 2 ^ 53"
  proof -
    have "decimal n \<noteq> lit ''null''"
    proof
      assume "decimal n = lit ''null''"
      with decimal_digits [of n] have "48 \<le> unat (110 :: 16 word) \<and> unat (110 :: 16 word) \<le> 57"
        by (simp add: lit_def)
      then show False
        by simp
    qed
    with that show ?thesis
      by (simp add: posting_target_def decimal_not_Nil parseInt_decimal)
  qed
  have 5: "posting_target (e\<lparr>PULL_REQUEST_NUMBER := Some (lit ''null'')\<rparr>) owner repo body =
     CreateCommitComment owner repo (HEAD_SHA e) body"
    "posting_target (e\<lparr>PULL_REQUEST_NUMBER := Some []\<rparr>) owner repo body =
     CreateCommitComment owner repo (HEAD_SHA e) body"
    "posting_target (e\<lparr>PULL_REQUEST_NUMBER := None\<rparr>) owner repo body =
     CreateCommitComment owner repo (HEAD_SHA e) body"
    by (simp_all add: posting_target_def)
  from 1 2 3 4 5 main_bounds [of e w] show ?thesis
    by blast
qed

lemma decimal_42: "decimal 42 = lit ''42''"
  by (simp add: decimal.simps lit_def)

theorem reporter_posts_once_witness:
  "posting_target (sample_env\<lparr>PULL_REQUEST_NUMBER := Some (lit ''42'')\<rparr>)
      (Some (lit ''octo'')) (Some (lit ''demo'')) (lit ''text'') =
     CreateComment (Some (lit ''octo'')) (Some (lit ''demo'')) (Num 42) (lit ''text'')"
proof -
  have "(42 :: nat) \<le> 2 ^ 53"
    by simp
  with reporter_posts_once [where n = 42 and e = sample_env] show ?thesis
    unfolding decimal_42 by simp
qed

lemma response_text_payload:
  assumes "map_of members (lit ''content'') = Some (JArray (JObject entries # others))"
    and "map_of entries (lit ''text'') = Some (JString payload)"
  shows "response_text (JObject members) = Inr (js_trim payload)"
  using assms by (simp add: response_text_def)

lemma response_text_sample: "response_text sample_response = Inr (lit ''Install the module.'')"
  by (simp add: sample_response_def response_text_def js_trim_def is_whitespace_def lit_def)

section \<open>Diagnosis Requester\<close>

text \<open>
  Claim C6.  The Diagnosis Requester issues a single inference request: the built
  prompt is the only message, with role \<open>user\<close>, the model identifier is fixed and
  the maximum output size is 2000 tokens; nothing after that request is an inference
  call, and no run of the pipeline makes more than one.  The diagnosis is the text of
  the first content block of the parsed response with the white space at both ends
  removed.  If the request throws, if the body is not JSON, or if the text cannot be
  read from the parsed body, the run ends in the top-level handler, which exits with
  status 1; so does a run whose comment post throws.  Nothing is retried.  Every other
  fault inside \<^verbatim>\<open>main\<close> takes the same way: with credentials and run identifier
  present, an undefined repository (the split throws a TypeError), a fetch of the run
  that throws and a job listing that throws each end the run in the top-level handler
  with status 1.  A run that gets past the Run Locator with a failed job is the
  Diagnosis Requester entered on the blob of the Log Extractor, whose per-job fetch
  failures are caught locally, so the faults above are all the faults of a run.
\<close>

theorem diagnosis_requester_contract:
  "(\<exists>rest. effects (diagnose e w owner repo failureDetails tr) =
       tr @ [Log (lit ''Analyzing failure with Claude via Bedrock...''),
             inference_request e owner repo failureDetails] @ rest \<and>
       filter is_inference rest = []) \<and>
   (\<exists>client. inference_request e owner repo failureDetails =
       Bedrock client
         \<lparr>modelId = lit ''anthropic.claude-3-sonnet-20240229-v1:0'',
          anthropic_version = lit ''bedrock-2023-05-31'',
          max_tokens = 2000,
          messages = [(lit ''user'',
            analysisPrompt (WORKFLOW_NAME e) (WORKFLOW_RUN_ID e) owner repo failureDetails)],
          contentType = lit ''application/json'',
          accept = lit ''application/json''\<rparr>) \<and>
   (inference_answer w e owner repo failureDetails = Inl err \<longrightarrow>
      diagnose e w owner repo failureDetails tr =
        fatal err (tr @ [Log (lit ''Analyzing failure with Claude via Bedrock...''),
                         inference_request e owner repo failureDetails])) \<and>
   (inference_answer w e owner repo failureDetails = Inr Malformed \<longrightarrow>
      diagnose e w owner repo failureDetails tr =
        fatal SyntaxError (tr @ [Log (lit ''Analyzing failure with Claude via Bedrock...''),
                                 inference_request e owner repo failureDetails,
                                 Log (lit ''Bedrock analysis successful'')])) \<and>
   (inference_answer w e owner repo failureDetails = Inr (Json responseBody) \<and>
    response_text responseBody = Inl err \<longrightarrow>
      diagnose e w owner repo failureDetails tr =
        fatal err (tr @ [Log (lit ''Analyzing failure with Claude via Bedrock...''),
                         inference_request e owner repo failureDetails,
                         Log (lit ''Bedrock analysis successful'')])) \<and>
   (inference_answer w e owner repo failureDetails = Inr (Json responseBody) \<and>
    response_text responseBody = Inr analysis \<longrightarrow>
      diagnose e w owner repo failureDetails tr =
        report e w owner repo analysis
          (tr @ [Log (lit ''Analyzing failure with Claude via Bedrock...''),
                 inference_request e owner repo failureDetails,
                 Log (lit ''Bedrock analysis successful'')])) \<and>
   (map_of members (lit ''content'') = Some (JArray (JObject entries # others)) \<and>
    map_of entries (lit ''text'') = Some (JString payload) \<longrightarrow>
      response_text (JObject members) = Inr (js_trim payload)) \<and>
   (\<exists>before after. payload = before @ js_trim payload @ after \<and>
      list_all is_whitespace before \<and> list_all is_whitespace after \<and>
      (js_trim payload = [] \<or>
       (\<not> is_whitespace (hd (js_trim payload)) \<and> \<not> is_whitespace (last (js_trim payload))))) \<and>
   (post w (GITHUB_TOKEN e)
      (posting_target e owner repo (commentBody analysis (WORKFLOW_NAME e))) = Inl err \<longrightarrow>
      report e w owner repo analysis tr =
        fatal err (tr @ [Log (lit ''Creating comment with analysis...''),
                         GitHub (GITHUB_TOKEN e)
                           (posting_target e owner repo (commentBody analysis (WORKFLOW_NAME e)))])) \<and>
   exit_code (fatal err tr) = 1 \<and>
   length (filter is_inference (effects (main e w))) \<le> 1 \<and>
   (truthy (AWS_ACCESS_KEY_ID e) \<and> truthy (AWS_SECRET_ACCESS_KEY e) \<and>
    truthy (WORKFLOW_RUN_ID e) \<and> GITHUB_REPOSITORY e = None \<longrightarrow>
      main e w = fatal TypeError (environment_check e)) \<and>
   (truthy (AWS_ACCESS_KEY_ID e) \<and> truthy (AWS_SECRET_ACCESS_KEY e) \<and>
    truthy (WORKFLOW_RUN_ID e) \<and> GITHUB_REPOSITORY e = Some repository \<and>
    getWorkflowRun w (GITHUB_TOKEN e)
      (GetWorkflowRun (first_of (js_split slash repository))
         (second_of (js_split slash repository)) (WORKFLOW_RUN_ID e)) = Inl err \<longrightarrow>
      main e w =
        fatal err
          (environment_check e @
           [Log (lit ''Fetching workflow run details...''),
            GitHub (GITHUB_TOKEN e)
              (GetWorkflowRun (first_of (js_split slash repository))
                 (second_of (js_split slash repository)) (WORKFLOW_RUN_ID e))])) \<and>
   (truthy (AWS_ACCESS_KEY_ID e) \<and> truthy (AWS_SECRET_ACCESS_KEY e) \<and>
    truthy (WORKFLOW_RUN_ID e) \<and> GITHUB_REPOSITORY e = Some repository \<and>
    getWorkflowRun w (GITHUB_TOKEN e)
      (GetWorkflowRun (first_of (js_split slash repository))
         (second_of (js_split slash repository)) (WORKFLOW_RUN_ID e)) = Inr run \<and>
    listJobsForWorkflowRun w (GITHUB_TOKEN e)
      (ListJobsForWorkflowRun (first_of (js_split slash repository))
         (second_of (js_split slash repository)) (WORKFLOW_RUN_ID e)) = Inl err \<longrightarrow>
      main e w =
        fatal err
          (environment_check e @
           [Log (lit ''Fetching workflow run details...''),
            GitHub (GITHUB_TOKEN e)
              (GetWorkflowRun (first_of (js_split slash repository))
                 (second_of (js_split slash repository)) (WORKFLOW_RUN_ID e)),
            GitHub (GITHUB_TOKEN e)
              (ListJobsForWorkflowRun (first_of (js_split slash repository))
                 (second_of (js_split slash repository)) (WORKFLOW_RUN_ID e))])) \<and>
   (locate e w = Inr (owner, repo, jobs, located) \<and> failedJobs jobs \<noteq> [] \<longrightarrow>
      main e w =
        diagnose e w owner repo
          (concat (map (job_section w (GITHUB_TOKEN e) owner repo) (failedJobs jobs)))
          (located @
           [Log (lit ''Found '' @ decimal (length (failedJobs jobs)) @ lit '' failed job(s)'')] @
           concat (map (job_effects w (GITHUB_TOKEN e) owner repo) (failedJobs jobs))))"
proof -
  have 1: "\<exists>rest. effects (diagnose e w owner repo failureDetails tr) =
       tr @ [Log (lit ''Analyzing failure with Claude via Bedrock...''),
             inference_request e owner repo failureDetails] @ rest \<and>
       filter is_inference rest = []"
    using diagnose_effects [of e w owner repo failureDetails tr]
    unfolding inference_request_def by blast
  have 2: "\<exists>client. inference_request e owner repo failureDetails =
       Bedrock client
         \<lparr>modelId = lit ''anthropic.claude-3-sonnet-20240229-v1:0'',
          anthropic_version = lit ''bedrock-2023-05-31'',
          max_tokens = 2000,
          messages = [(lit ''user'',
            analysisPrompt (WORKFLOW_NAME e) (WORKFLOW_RUN_ID e) owner repo failureDetails)],
          contentType = lit ''application/json'',
          accept = lit ''application/json''\<rparr>"
    by (simp add: inference_request_def InvokeModelCommand_def)
  have 3: "inference_answer w e owner repo failureDetails = Inl err \<Longrightarrow>
      diagnose e w owner repo failureDetails tr =
        fatal err (tr @ [Log (lit ''Analyzing failure with Claude via Bedrock...''),
                         inference_request e owner repo failureDetails])"
    by (simp add: diagnose_cases inference_answer_def inference_request_def)
  have 4: "inference_answer w e owner repo failureDetails = Inr Malformed \<Longrightarrow>
      diagnose e w owner repo failureDetails tr =
        fatal SyntaxError (tr @ [Log (lit ''Analyzing failure with Claude via Bedrock...''),
                                 inference_request e owner repo failureDetails,
                                 Log (lit ''Bedrock analysis successful'')])"
    by (simp add: diagnose_cases inference_answer_def inference_request_def)
  have 5: "inference_answer w e owner repo failureDetails = Inr (Json responseBody) \<and>
    response_text responseBody = Inl err \<Longrightarrow>
      diagnose e w owner repo failureDetails tr =
        fatal err (tr @ [Log (lit ''Analyzing failure with Claude via Bedrock...''),
                         inference_request e owner repo failureDetails,
                         Log (lit ''Bedrock analysis successful'')])"
    by (simp add: diagnose_cases inference_answer_def inference_request_def)
  have 6: "inference_answer w e owner repo failureDetails = Inr (Json responseBody) \<and>
    response_text responseBody = Inr analysis \<Longrightarrow>
      diagnose e w owner repo failureDetails tr =
        report e w owner repo analysis
          (tr @ [Log (lit ''Analyzing failure with Claude via Bedrock...''),
                 inference_request e owner repo failureDetails,
                 Log (lit ''Bedrock analysis successful'')])"
    by (simp add: diagnose_cases inference_answer_def inference_request_def)
  have 7: "map_of members (lit ''content'') = Some (JArray (JObject entries # others)) \<and>
    map_of entries (lit ''text'') = Some (JString payload) \<Longrightarrow>
      response_text (JObject members) = Inr (js_trim payload)"
    by (simp add: response_text_payload)
  have 8: "post w (GITHUB_TOKEN e)
      (posting_target e owner repo (commentBody analysis (WORKFLOW_NAME e))) = Inl err \<Longrightarrow>
      report e w owner repo analysis tr =
        fatal err (tr @ [Log (lit ''Creating comment with analysis...''),
                         GitHub (GITHUB_TOKEN e)
                           (posting_target e owner repo (commentBody analysis (WORKFLOW_NAME e)))])"
    by (rule report_post_failure)
  have 9: "exit_code (fatal err tr) = 1"
    by (simp add: fatal_def)
  have 10: "truthy (AWS_ACCESS_KEY_ID e) \<and> truthy (AWS_SECRET_ACCESS_KEY e) \<and>
    truthy (WORKFLOW_RUN_ID e) \<and> GITHUB_REPOSITORY e = None \<Longrightarrow>
      main e w = fatal TypeError (environment_check e)"
    by (simp add: main_def locate_def Let_def)
  have 11: "truthy (AWS_ACCESS_KEY_ID e) \<and> truthy (AWS_SECRET_ACCESS_KEY e) \<and>
    truthy (WORKFLOW_RUN_ID e) \<and> GITHUB_REPOSITORY e = Some repository \<and>
    getWorkflowRun w (GITHUB_TOKEN e)
      (GetWorkflowRun (first_of (js_split slash repository))
         (second_of (js_split slash repository)) (WORKFLOW_RUN_ID e)) = Inl err \<Longrightarrow>
      main e w =
        fatal err
          (environment_check e @
           [Log (lit ''Fetching workflow run details...''),
            GitHub (GITHUB_TOKEN e)
              (GetWorkflowRun (first_of (js_split slash repository))
                 (second_of (js_split slash repository)) (WORKFLOW_RUN_ID e))])"
    by (simp add: main_def locate_def Let_def)
  have 12: "truthy (AWS_ACCESS_KEY_ID e) \<and> truthy (AWS_SECRET_ACCESS_KEY e) \<and>
    truthy (WORKFLOW_RUN_ID e) \<and> GITHUB_REPOSITORY e = Some repository \<and>
    getWorkflowRun w (GITHUB_TOKEN e)
      (GetWorkflowRun (first_of (js_split slash repository))
         (second_of (js_split slash repository)) (WORKFLOW_RUN_ID e)) = Inr run \<and>
    listJobsForWorkflowRun w (GITHUB_TOKEN e)
      (ListJobsForWorkflowRun (first_of (js_split slash repository))
         (second_of (js_split slash repository)) (WORKFLOW_RUN_ID e)) = Inl err \<Longrightarrow>
      main e w =
        fatal err
          (environment_check e @
           [Log (lit ''Fetching workflow run details...''),
            GitHub (GITHUB_TOKEN e)
              (GetWorkflowRun (first_of (js_split slash repository))
                 (second_of (js_split slash repository)) (WORKFLOW_RUN_ID e)),
            GitHub (GITHUB_TOKEN e)
              (ListJobsForWorkflowRun (first_of (js_split slash repository))
                 (second_of (js_split slash repository)) (WORKFLOW_RUN_ID e))])"
    by (simp add: main_def locate_def Let_def)
  have 13: "locate e w = Inr (owner, repo, jobs, located) \<and> failedJobs jobs \<noteq> [] \<Longrightarrow>
      main e w =
        diagnose e w owner repo
          (concat (map (job_section w (GITHUB_TOKEN e) owner repo) (failedJobs jobs)))
          (located @
           [Log (lit ''Found '' @ decimal (length (failedJobs jobs)) @ lit '' failed job(s)'')] @
           concat (map (job_effects w (GITHUB_TOKEN e) owner repo) (failedJobs jobs)))"
    using main_extracted [of e w owner repo jobs located] by blast
  note trimmed = js_trim_spec [of payload]
  note once = main_bounds [of e w, THEN conjunct1]
  show ?thesis
    by (intro conjI impI) (rule 1 2 9 trimmed once | erule 3 4 5 6 7 8 10 11 12 13)+
qed

theorem diagnosis_requester_contract_witness:
  "diagnose sample_env sample_world (Some (lit ''octo'')) (Some (lit ''demo'')) (lit ''blob'') [] =
     report sample_env sample_world (Some (lit ''octo'')) (Some (lit ''demo''))
       (lit ''Install the module.'')
       ([] @ [Log (lit ''Analyzing failure with Claude via Bedrock...''),
              inference_request sample_env (Some (lit ''octo'')) (Some (lit ''demo'')) (lit ''blob''),
              Log (lit ''Bedrock analysis successful'')]) \<and>
   exit_code (diagnose sample_env unreachable_world (Some (lit ''octo'')) (Some (lit ''demo''))
     (lit ''blob'') []) = 1 \<and>
   exit_code (diagnose sample_env garbled_world (Some (lit ''octo'')) (Some (lit ''demo''))
     (lit ''blob'') []) = 1 \<and>
   exit_code (diagnose sample_env null_world (Some (lit ''octo'')) (Some (lit ''demo''))
     (lit ''blob'') []) = 1 \<and>
   exit_code (report sample_env unreachable_world (Some (lit ''octo'')) (Some (lit ''demo''))
     (lit ''Install the module.'') []) = 1 \<and>
   response_text sample_response = Inr (js_trim (lit '' Install the module. '')) \<and>
   exit_code (main no_repository_env sample_world) = 1 \<and>
   exit_code (main sample_env unreachable_world) = 1 \<and>
   exit_code (main sample_env jobless_world) = 1 \<and>
   main sample_env sample_world =
     diagnose sample_env sample_world (Some (lit ''octo'')) (Some (lit ''demo''))
       (concat (map (job_section sample_world (GITHUB_TOKEN sample_env)
          (Some (lit ''octo'')) (Some (lit ''demo'')))
          (failedJobs [build_job, lint_job, test_job, docs_job])))
       ((environment_check sample_env @
         [Log (lit ''Fetching workflow run details...''),
          GitHub (Some (lit ''token''))
            (GetWorkflowRun (Some (lit ''octo'')) (Some (lit ''demo'')) (Some (lit ''555''))),
          GitHub (Some (lit ''token''))
            (ListJobsForWorkflowRun (Some (lit ''octo'')) (Some (lit ''demo'')) (Some (lit ''555'')))]) @
        [Log (lit ''Found '' @ decimal (length (failedJobs [build_job, lint_job, test_job, docs_job])) @
              lit '' failed job(s)'')] @
        concat (map (job_effects sample_world (GITHUB_TOKEN sample_env)
          (Some (lit ''octo'')) (Some (lit ''demo'')))
          (failedJobs [build_job, lint_job, test_job, docs_job])))"
proof -
  note contract = diagnosis_requester_contract [where e = sample_env
      and owner = "Some (lit ''octo'')" and repo = "Some (lit ''demo'')"
      and failureDetails = "lit ''blob''" and tr = "[]"]
  have a: "inference_answer sample_world sample_env (Some (lit ''octo'')) (Some (lit ''demo''))
      (lit ''blob'') = Inr (Json sample_response)"
    by (simp add: inference_answer_def sample_world_def)
  have b: "response_text sample_response = Inr (lit ''Install the module.'')"
    by (rule response_text_sample)
  from a b contract [where w = sample_world and responseBody = sample_response
      and analysis = "lit ''Install the module.''"]
  have 1: "diagnose sample_env sample_world (Some (lit ''octo'')) (Some (lit ''demo'')) (lit ''blob'') [] =
     report sample_env sample_world (Some (lit ''octo'')) (Some (lit ''demo''))
       (lit ''Install the module.'')
       ([] @ [Log (lit ''Analyzing failure with Claude via Bedrock...''),
              inference_request sample_env (Some (lit ''octo'')) (Some (lit ''demo'')) (lit ''blob''),
              Log (lit ''Bedrock analysis successful'')])"
    by blast
  have "inference_answer unreachable_world sample_env (Some (lit ''octo'')) (Some (lit ''demo''))
      (lit ''blob'') = Inl (ServiceError (lit ''offline''))"
    by (simp add: inference_answer_def unreachable_world_def)
  with contract [where w = unreachable_world and err = "ServiceError (lit ''offline'')"]
  have "diagnose sample_env unreachable_world (Some (lit ''octo'')) (Some (lit ''demo'')) (lit ''blob'') [] =
      fatal (ServiceError (lit ''offline''))
        ([] @ [Log (lit ''Analyzing failure with Claude via Bedrock...''),
               inference_request sample_env (Some (lit ''octo'')) (Some (lit ''demo'')) (lit ''blob'')])"
    by blast
  then have 2: "exit_code (diagnose sample_env unreachable_world (Some (lit ''octo''))
      (Some (lit ''demo'')) (lit ''blob'') []) = 1"
    by (simp add: fatal_def)
  have "inference_answer garbled_world sample_env (Some (lit ''octo'')) (Some (lit ''demo''))
      (lit ''blob'') = Inr Malformed"
    by (simp add: inference_answer_def garbled_world_def)
  with contract [where w = garbled_world]
  have "diagnose sample_env garbled_world (Some (lit ''octo'')) (Some (lit ''demo'')) (lit ''blob'') [] =
      fatal SyntaxError
        ([] @ [Log (lit ''Analyzing failure with Claude via Bedrock...''),
               inference_request sample_env (Some (lit ''octo'')) (Some (lit ''demo'')) (lit ''blob''),
               Log (lit ''Bedrock analysis successful'')])"
    by blast
  then have 3: "exit_code (diagnose sample_env garbled_world (Some (lit ''octo''))
      (Some (lit ''demo'')) (lit ''blob'') []) = 1"
    by (simp add: fatal_def)
  have "inference_answer null_world sample_env (Some (lit ''octo'')) (Some (lit ''demo''))
      (lit ''blob'') = Inr (Json JNull) \<and> response_text JNull = Inl TypeError"
    by (simp add: inference_answer_def null_world_def response_text_def)
  with contract [where w = null_world and responseBody = JNull and err = TypeError]
  have "diagnose sample_env null_world (Some (lit ''octo'')) (Some (lit ''demo'')) (lit ''blob'') [] =
      fatal TypeError
        ([] @ [Log (lit ''Analyzing failure with Claude via Bedrock...''),
               inference_request sample_env (Some (lit ''octo'')) (Some (lit ''demo'')) (lit ''blob''),
               Log (lit ''Bedrock analysis successful'')])"
    by blast
  then have 4: "exit_code (diagnose sample_env null_world (Some (lit ''octo''))
      (Some (lit ''demo'')) (lit ''blob'') []) = 1"
    by (simp add: fatal_def)
  have "post unreachable_world (GITHUB_TOKEN sample_env)
      (posting_target sample_env (Some (lit ''octo'')) (Some (lit ''demo''))
        (commentBody (lit ''Install the module.'') (WORKFLOW_NAME sample_env))) =
      Inl (ServiceError (lit ''offline''))"
    by (simp add: post_def posting_target_def sample_env_fields unreachable_world_def lit_def)
  with contract [where w = unreachable_world and analysis = "lit ''Install the module.''"
      and err = "ServiceError (lit ''offline'')"]
  have "report sample_env unreachable_world (Some (lit ''octo'')) (Some (lit ''demo''))
      (lit ''Install the module.'') [] =
      fatal (ServiceError (lit ''offline''))
        ([] @ [Log (lit ''Creating comment with analysis...''),
               GitHub (GITHUB_TOKEN sample_env)
                 (posting_target sample_env (Some (lit ''octo'')) (Some (lit ''demo''))
                   (commentBody (lit ''Install the module.'') (WORKFLOW_NAME sample_env)))])"
    by blast
  then have 5: "exit_code (report sample_env unreachable_world (Some (lit ''octo''))
      (Some (lit ''demo'')) (lit ''Install the module.'') []) = 1"
    by (simp add: fatal_def)
  have "map_of [(lit ''content'',
        JArray [JObject [(lit ''type'', JString (lit ''text'')),
                         (lit ''text'', JString (lit '' Install the module. ''))]])]
      (lit ''content'') =
      Some (JArray (JObject [(lit ''type'', JString (lit ''text'')),
                             (lit ''text'', JString (lit '' Install the module. ''))] # [])) \<and>
    map_of [(lit ''type'', JString (lit ''text'')),
            (lit ''text'', JString (lit '' Install the module. ''))] (lit ''text'') =
      Some (JString (lit '' Install the module. ''))"
    by (simp add: lit_def)
  with contract [where w = sample_world
      and members = "[(lit ''content'',
        JArray [JObject [(lit ''type'', JString (lit ''text'')),
                         (lit ''text'', JString (lit '' Install the module. ''))]])]"
      and entries = "[(lit ''type'', JString (lit ''text'')),
                      (lit ''text'', JString (lit '' Install the module. ''))]"
      and others = "[]" and payload = "lit '' Install the module. ''"]
  have 6: "response_text sample_response = Inr (js_trim (lit '' Install the module. ''))"
    unfolding sample_response_def by blast
  note faults = diagnosis_requester_contract [THEN conjunct2, THEN conjunct2, THEN conjunct2,
      THEN conjunct2, THEN conjunct2, THEN conjunct2, THEN conjunct2, THEN conjunct2,
      THEN conjunct2, THEN conjunct2, THEN conjunct2]
  have "truthy (AWS_ACCESS_KEY_ID no_repository_env) \<and>
      truthy (AWS_SECRET_ACCESS_KEY no_repository_env) \<and>
      truthy (WORKFLOW_RUN_ID no_repository_env) \<and> GITHUB_REPOSITORY no_repository_env = None"
    by (simp add: no_repository_env_def sample_env_fields truthy_lit)
  from faults [THEN conjunct1, THEN mp, OF this]
  have 7: "exit_code (main no_repository_env sample_world) = 1"
    by (simp add: fatal_def)
  have "truthy (AWS_ACCESS_KEY_ID sample_env) \<and> truthy (AWS_SECRET_ACCESS_KEY sample_env) \<and>
    truthy (WORKFLOW_RUN_ID sample_env) \<and> GITHUB_REPOSITORY sample_env = Some (lit ''octo/demo'') \<and>
    getWorkflowRun unreachable_world (GITHUB_TOKEN sample_env)
      (GetWorkflowRun (first_of (js_split slash (lit ''octo/demo'')))
         (second_of (js_split slash (lit ''octo/demo''))) (WORKFLOW_RUN_ID sample_env)) =
      Inl (ServiceError (lit ''offline''))"
    by (simp add: sample_env_fields truthy_lit unreachable_world_def)
  from faults [THEN conjunct2, THEN conjunct1, THEN mp, OF this]
  have 8: "exit_code (main sample_env unreachable_world) = 1"
    by (simp add: fatal_def)
  have "truthy (AWS_ACCESS_KEY_ID sample_env) \<and> truthy (AWS_SECRET_ACCESS_KEY sample_env) \<and>
    truthy (WORKFLOW_RUN_ID sample_env) \<and> GITHUB_REPOSITORY sample_env = Some (lit ''octo/demo'') \<and>
    getWorkflowRun jobless_world (GITHUB_TOKEN sample_env)
      (GetWorkflowRun (first_of (js_split slash (lit ''octo/demo'')))
         (second_of (js_split slash (lit ''octo/demo''))) (WORKFLOW_RUN_ID sample_env)) = Inr JNull \<and>
    listJobsForWorkflowRun jobless_world (GITHUB_TOKEN sample_env)
      (ListJobsForWorkflowRun (first_of (js_split slash (lit ''octo/demo'')))
         (second_of (js_split slash (lit ''octo/demo''))) (WORKFLOW_RUN_ID sample_env)) =
      Inl (ServiceError (lit ''offline''))"
    by (simp add: sample_env_fields truthy_lit jobless_world_def unreachable_world_def)
  from faults [THEN conjunct2, THEN conjunct2, THEN conjunct1, THEN mp, OF this]
  have 9: "exit_code (main sample_env jobless_world) = 1"
    by (simp add: fatal_def)
  have l: "locate sample_env sample_world =
     Inr (Some (lit ''octo''), Some (lit ''demo''), [build_job, lint_job, test_job, docs_job],
       environment_check sample_env @
       [Log (lit ''Fetching workflow run details...''),
        GitHub (Some (lit ''token''))
          (GetWorkflowRun (Some (lit ''octo'')) (Some (lit ''demo'')) (Some (lit ''555''))),
        GitHub (Some (lit ''token''))
          (ListJobsForWorkflowRun (Some (lit ''octo'')) (Some (lit ''demo'')) (Some (lit ''555'')))])"
    by (rule locate_sample) (simp_all add: sample_world_def)
  have f: "failedJobs [build_job, lint_job, test_job, docs_job] \<noteq> []"
    by (simp add: failedJobs_def build_job_def lit_def)
  note 10 = faults [THEN conjunct2, THEN conjunct2, THEN conjunct2, THEN mp, OF conjI [OF l f]]
  from 1 2 3 4 5 6 7 8 9 10 show ?thesis
    by (intro conjI) assumption+
qed

lemma report_success:
  "post w (GITHUB_TOKEN e)
      (posting_target e owner repo (commentBody analysis (WORKFLOW_NAME e))) = Inr u \<Longrightarrow>
   exit_code (report e w owner repo analysis tr) = 0"
  by (auto simp: report_def posting_target_def post_def Let_def truthy_def str_undef_def
      split: option.splits if_splits)

lemma download_in_job_effects:
  "GitHub token (DownloadJobLogsForWorkflowRun owner repo (job_id job)) \<in>
     set (job_effects w token owner repo job)"
  by (simp add: job_effects_cases)

lemma degraded_section_includes:
  "js_includes (degraded_section job) (job_name job)"
  "js_includes (degraded_section job) (lit ''Status: '' @ str_null (conclusion job))"
  "js_includes (degraded_section job) (lit ''Could not fetch detailed logs'')"
proof -
  show "js_includes (degraded_section job) (job_name job)"
    unfolding degraded_section_def
    using js_includes_appendI [of "[nl] @ lit ''## Job: ''" "job_name job"]
    by simp
  show "js_includes (degraded_section job) (lit ''Status: '' @ str_null (conclusion job))"
    unfolding degraded_section_def
    using js_includes_appendI [of "[nl] @ lit ''## Job: '' @ job_name job @ [nl]"
        "lit ''Status: '' @ str_null (conclusion job)"]
    by simp
  have "js_includes (lit ''Error: Could not fetch detailed logs'') (lit ''Could not fetch detailed logs'')"
    by (simp add: lit_def)
  from js_includes_mid [OF this] show "js_includes (degraded_section job) (lit ''Could not fetch detailed logs'')"
    unfolding degraded_section_def
    by (metis append_assoc)
qed

section \<open>A failing log fetch\<close>

text \<open>
  Claim C5.  If the pipeline has reached the Log Extractor and fetching the raw log of
  one failed job throws, the pipeline does not abort.  The section of that job is the
  degraded one, made of its name, its conclusion and the note
  \<open>Could not fetch detailed logs\<close>, and it is part of the aggregated blob.  Extraction
  continues: the log of every retained job is requested.  Then the prompt is built from
  the blob and sent, and when the inference exchange yields a diagnosis the comment is
  posted; if the post succeeds the process exits with status 0.
\<close>

theorem log_fetch_failure_isolated:
  assumes "locate e w = Inr (owner, repo, jobs, tr)"
    and "job \<in> set (failedJobs jobs)"
    and "downloadJobLogsForWorkflowRun w (GITHUB_TOKEN e)
           (DownloadJobLogsForWorkflowRun owner repo (job_id job)) = Inl err"
  shows "job_section w (GITHUB_TOKEN e) owner repo job = degraded_section job \<and>
     js_includes (degraded_section job) (job_name job) \<and>
     js_includes (degraded_section job) (lit ''Status: '' @ str_null (conclusion job)) \<and>
     js_includes (degraded_section job) (lit ''Could not fetch detailed logs'') \<and>
     js_includes (concat (map (job_section w (GITHUB_TOKEN e) owner repo) (failedJobs jobs)))
       (degraded_section job) \<and>
     list_all
       (\<lambda>j. GitHub (GITHUB_TOKEN e) (DownloadJobLogsForWorkflowRun owner repo (job_id j)) \<in>
              set (effects (main e w)))
       (failedJobs jobs) \<and>
     inference_request e owner repo
       (concat (map (job_section w (GITHUB_TOKEN e) owner repo) (failedJobs jobs))) \<in>
       set (effects (main e w)) \<and>
     (inference_answer w e owner repo
        (concat (map (job_section w (GITHUB_TOKEN e) owner repo) (failedJobs jobs))) =
        Inr (Json responseBody) \<and>
      response_text responseBody = Inr analysis \<longrightarrow>
        GitHub (GITHUB_TOKEN e)
          (posting_target e owner repo (commentBody analysis (WORKFLOW_NAME e))) \<in>
          set (effects (main e w)) \<and>
        (post w (GITHUB_TOKEN e)
           (posting_target e owner repo (commentBody analysis (WORKFLOW_NAME e))) = Inr () \<longrightarrow>
         exit_code (main e w) = 0))"
proof -
  let ?section = "job_section w (GITHUB_TOKEN e) owner repo"
  let ?blob = "concat (map ?section (failedJobs jobs))"
  let ?tr = "tr @ [Log (lit ''Found '' @ decimal (length (failedJobs jobs)) @ lit '' failed job(s)'')] @
      concat (map (job_effects w (GITHUB_TOKEN e) owner repo) (failedJobs jobs))"
  let ?tr2 = "?tr @ [Log (lit ''Analyzing failure with Claude via Bedrock...''),
      inference_request e owner repo ?blob, Log (lit ''Bedrock analysis successful'')]"
  from assms(2) have ne: "failedJobs jobs \<noteq> []"
    by auto
  have m: "main e w = diagnose e w owner repo ?blob ?tr"
    by (rule main_extracted [OF assms(1) ne])
  from diagnose_effects [of e w owner repo ?blob ?tr] obtain rest where
    eff: "effects (main e w) =
      ?tr @ [Log (lit ''Analyzing failure with Claude via Bedrock...''),
             inference_request e owner repo ?blob] @ rest"
    unfolding m inference_request_def by blast
  have 1: "?section job = degraded_section job"
    using assms(3) by (simp add: job_section_cases)
  from assms(2) obtain before after where "failedJobs jobs = before @ job # after"
    by (auto dest: split_list)
  then have "?blob = concat (map ?section before) @ ?section job @ concat (map ?section after)"
    by simp
  then have 2: "js_includes ?blob (degraded_section job)"
    unfolding 1 by (simp only: js_includes_appendI)
  have 3: "list_all
       (\<lambda>j. GitHub (GITHUB_TOKEN e) (DownloadJobLogsForWorkflowRun owner repo (job_id j)) \<in>
              set (effects (main e w)))
       (failedJobs jobs)"
    unfolding list_all_iff
  proof
    fix j
    assume "j \<in> set (failedJobs jobs)"
    then have "GitHub (GITHUB_TOKEN e) (DownloadJobLogsForWorkflowRun owner repo (job_id j)) \<in>
        set (concat (map (job_effects w (GITHUB_TOKEN e) owner repo) (failedJobs jobs)))"
      using download_in_job_effects [of "GITHUB_TOKEN e" owner repo j w] by auto
    then show "GitHub (GITHUB_TOKEN e) (DownloadJobLogsForWorkflowRun owner repo (job_id j)) \<in>
        set (effects (main e w))"
      unfolding eff by simp
  qed
  have 4: "inference_request e owner repo ?blob \<in> set (effects (main e w))"
    unfolding eff by simp
  have 5: "GitHub (GITHUB_TOKEN e)
          (posting_target e owner repo (commentBody analysis (WORKFLOW_NAME e))) \<in>
          set (effects (main e w)) \<and>
        (post w (GITHUB_TOKEN e)
           (posting_target e owner repo (commentBody analysis (WORKFLOW_NAME e))) = Inr () \<longrightarrow>
         exit_code (main e w) = 0)"
    if "inference_answer w e owner repo ?blob = Inr (Json responseBody)"
      and "response_text responseBody = Inr analysis"
  proof -
    from that have r: "main e w = report e w owner repo analysis ?tr2"
      unfolding m by (simp add: diagnose_cases inference_answer_def inference_request_def)
    from report_target [of e w owner repo analysis ?tr2]
    have "GitHub (GITHUB_TOKEN e)
          (posting_target e owner repo (commentBody analysis (WORKFLOW_NAME e))) \<in>
          set (effects (main e w))"
      unfolding r by auto
    moreover have "exit_code (main e w) = 0"
      if "post w (GITHUB_TOKEN e)
           (posting_target e owner repo (commentBody analysis (WORKFLOW_NAME e))) = Inr ()"
      unfolding r using that by (rule report_success)
    ultimately show ?thesis
      by blast
  qed
  from 1 degraded_section_includes [of job] 2 3 4 5 show ?thesis
    by blast
qed

theorem log_fetch_failure_isolated_witness:
  "job_section sample_world (GITHUB_TOKEN sample_env) (Some (lit ''octo'')) (Some (lit ''demo''))
      test_job = degraded_section test_job \<and>
   GitHub (GITHUB_TOKEN sample_env)
     (posting_target sample_env (Some (lit ''octo'')) (Some (lit ''demo''))
        (commentBody (lit ''Install the module.'') (WORKFLOW_NAME sample_env))) \<in>
     set (effects (main sample_env sample_world)) \<and>
   exit_code (main sample_env sample_world) = 0"
proof -
  let ?jobs = "[build_job, lint_job, test_job, docs_job]"
  let ?blob = "concat (map (job_section sample_world (GITHUB_TOKEN sample_env)
      (Some (lit ''octo'')) (Some (lit ''demo''))) (failedJobs ?jobs))"
  have l: "locate sample_env sample_world =
     Inr (Some (lit ''octo''), Some (lit ''demo''), ?jobs,
       environment_check sample_env @
       [Log (lit ''Fetching workflow run details...''),
        GitHub (Some (lit ''token''))
          (GetWorkflowRun (Some (lit ''octo'')) (Some (lit ''demo'')) (Some (lit ''555''))),
        GitHub (Some (lit ''token''))
          (ListJobsForWorkflowRun (Some (lit ''octo'')) (Some (lit ''demo'')) (Some (lit ''555'')))])"
    by (rule locate_sample) (simp_all add: sample_world_def)
  have j: "test_job \<in> set (failedJobs ?jobs)"
    by (simp add: failedJobs_def build_job_def lint_job_def test_job_def docs_job_def lit_def)
  have d: "downloadJobLogsForWorkflowRun sample_world (GITHUB_TOKEN sample_env)
      (DownloadJobLogsForWorkflowRun (Some (lit ''octo'')) (Some (lit ''demo'')) (job_id test_job)) =
      Inl (ServiceError (lit ''Not Found''))"
    by (simp add: sample_world_def sample_logs_def test_job_def)
  have a: "inference_answer sample_world sample_env (Some (lit ''octo'')) (Some (lit ''demo'')) ?blob =
      Inr (Json sample_response)"
    by (simp add: inference_answer_def sample_world_def)
  have b: "response_text sample_response = Inr (lit ''Install the module.'')"
    by (rule response_text_sample)
  have p: "post sample_world (GITHUB_TOKEN sample_env)
      (posting_target sample_env (Some (lit ''octo'')) (Some (lit ''demo''))
        (commentBody (lit ''Install the module.'') (WORKFLOW_NAME sample_env))) = Inr ()"
    by (simp add: post_def posting_target_def sample_env_fields sample_world_def lit_def)
  from log_fetch_failure_isolated [OF l j d, of sample_response "lit ''Install the module.''"] a b p
  show ?thesis
    by blast
qed

end
